theory Spec2Isabelle
  imports Main
begin


section \<open>Recipient addresses: \<open>formatJid\<close>\<close>

text \<open>
  Both entry files (app.js and server.js) define the same helper:
  \<^verbatim>\<open>
  function formatJid(numberOrJid) {
    if (!numberOrJid) throw new Error('missing number/jid');
    let s = String(numberOrJid).trim();
    if (s.endsWith('@s.whatsapp.net') || s.endsWith('@g.us')) return s;
    s = s.replace(/[^0-9]/g,'');
    return `${s}@s.whatsapp.net`;
  }
  \<close>
  A JavaScript string is modelled as a \<open>string\<close> whose characters are the code units
  below 256; an absent argument (\<open>undefined\<close>) is \<open>None\<close>. A thrown \<open>Error\<close> is the
  left injection carrying its message.
\<close>

definition js_space :: "char \<Rightarrow> bool" where
  \<comment> \<open>the white space and line terminators that \<open>String.prototype.trim\<close> removes,
      among the code units below 256: TAB, LF, VT, FF, CR, SP, NBSP\<close>
  "js_space c \<longleftrightarrow>
     c \<in> {CHR 0x09, CHR 0x0A, CHR 0x0B, CHR 0x0C, CHR 0x0D, CHR 0x20, CHR 0xA0}"

definition trim :: "string \<Rightarrow> string" where
  "trim s = rev (dropWhile js_space (rev (dropWhile js_space s)))"

definition endsWith :: "string \<Rightarrow> string \<Rightarrow> bool" where
  "endsWith s t \<longleftrightarrow> length t \<le> length s \<and> drop (length s - length t) s = t"

definition digit :: "char \<Rightarrow> bool" where
  "digit c \<longleftrightarrow> c \<in> set ''0123456789''"

definition user_suffix :: string where
  "user_suffix = ''@s.whatsapp.net''"

definition group_suffix :: string where
  "group_suffix = ''@g.us''"

definition formatJid :: "string option \<Rightarrow> string + string" where
  "formatJid numberOrJid =
     (case numberOrJid of
        None \<Rightarrow> Inl ''missing number/jid''
      | Some n \<Rightarrow>
          if n = [] then Inl ''missing number/jid''
          else let s = trim n in
            if endsWith s user_suffix \<or> endsWith s group_suffix then Inr s
            else Inr (filter digit s @ user_suffix))"

section \<open>The persisted tables and the in-memory registry\<close>

text \<open>
  The two entry files are variants of one program: app.js keeps credentials in the
  database (mysql-auth), server.js in files. Both create the tables \<open>sessions\<close> and
  \<open>messages\<close> and keep the registry \<^verbatim>\<open>const SESSIONS = {}\<close>, an object used as a
  dictionary from session id to \<^verbatim>\<open>{ sock, lastQr, createdAt }\<close> (app.js adds
  \<open>contacts\<close>). The tables are modelled by their rows, and a statement that is valid
  SQL is taken to succeed.

  The registry is modelled as the map that gives, for a key, the entry that
  \<^verbatim>\<open>SESSIONS[key]\<close> reads. For every key but one this is the own property the program
  assigned. The key \<open>__proto__\<close> is the accessor that \<open>SESSIONS\<close> inherits from
  \<open>Object.prototype\<close>: assigning an entry to it makes the entry the prototype of
  \<open>SESSIONS\<close>, reading it returns that entry, and \<^verbatim>\<open>delete\<close>, which removes own
  properties only, leaves it where it is.

  A key without an entry can still read as a value inherited along the prototype
  chain: a member of \<open>Object.prototype\<close>, or a field of the entry that was made the
  prototype. Such a value has no \<open>sock\<close> (a socket has no property of that name), so
  the test \<^verbatim>\<open>!s || !s.sock\<close> of the handlers treats it as a missing entry. It shows
  only where the code writes through \<^verbatim>\<open>SESSIONS[sessionId]\<close> without a test: the
  write throws when the value read is \<open>undefined\<close> or \<open>null\<close> and goes elsewhere, or
  nowhere, otherwise.
\<close>

datatype variant = App_js | Server_js

datatype status = Loading | Qr_received | Connected | Disconnected | Logged_out

datatype direction = Dir_in | Dir_out

record session_row =
  phone_number :: "string option"
  status :: status

record message_row =
  msg_id :: nat
  session_id :: "string option"
  direction :: direction
  from_who :: "string option"
  to_who :: "string option"
  msg_text :: "string option"
  media_type :: "string option"
  created_at :: nat

record entry =
  sock :: nat
  lastQr :: "string option"
  createdAt :: nat

text \<open>
  A socket made by \<^verbatim>\<open>makeWASocket\<close> is identified by its position among the sockets
  made so far; the record keeps what the closure of \<^verbatim>\<open>startBaileysSession\<close> captured.
\<close>

record wasocket =
  ws_session :: string
  ws_auth :: "string option"
  ws_version :: "nat list"
  ws_client :: "nat option"

text \<open>
  What leaves the process: events (\<^verbatim>\<open>socket.emit\<close> to one client, \<^verbatim>\<open>io.emit\<close> to
  everyone) and calls on the protocol capability and on the credential store. Event
  payloads are JavaScript values.
\<close>

datatype jv = Undefined | Null | Bool bool | Num nat | Str string | Obj "(string \<times> jv) list"

datatype dest = Client nat | Everyone

type_synonym event = "dest \<times> string \<times> jv"

datatype call = SendMessage nat string "string option" | Logout nat | ClearSession string

record timer =
  delay :: nat
  restart :: string
  restart_client :: "nat option"

record state =
  SESSIONS :: "string \<rightharpoonup> entry"
  sessions :: "string \<rightharpoonup> session_row"
  messages :: "message_row list"
  next_id :: nat
  credentials :: "string \<rightharpoonup> string"
  sockets :: "wasocket list"
  user :: "nat \<rightharpoonup> string"
  timers :: "timer list"
  emitted :: "event list"
  calls :: "call list"
  now :: nat

definition registry_delete :: "string \<Rightarrow> (string \<rightharpoonup> entry) \<Rightarrow> (string \<rightharpoonup> entry)" where
  \<comment> \<open>\<^verbatim>\<open>delete SESSIONS[sessionId]\<close>\<close>
  "registry_delete sessionId m = (if sessionId = ''__proto__'' then m else m(sessionId := None))"

definition object_prototype_names :: "string list" where
  "object_prototype_names =
     [''constructor'', ''__defineGetter__'', ''__defineSetter__'', ''hasOwnProperty'',
      ''__lookupGetter__'', ''__lookupSetter__'', ''isPrototypeOf'', ''propertyIsEnumerable'',
      ''toString'', ''valueOf'', ''__proto__'', ''toLocaleString'']"

definition entry_fields :: "variant \<Rightarrow> string list" where
  \<comment> \<open>the fields of an entry that are never \<open>null\<close>\<close>
  "entry_fields v =
     (case v of App_js \<Rightarrow> [''sock'', ''createdAt'', ''contacts'']
      | Server_js \<Rightarrow> [''sock'', ''createdAt''])"

datatype looked_up = Is_entry entry | Is_other | Is_null | Is_undefined

definition lookup :: "variant \<Rightarrow> string \<Rightarrow> (string \<rightharpoonup> entry) \<Rightarrow> looked_up" where
  \<comment> \<open>what \<^verbatim>\<open>SESSIONS[sessionId]\<close> reads: an entry, another inherited value, \<open>null\<close>
      (the \<open>lastQr\<close> of a prototype entry that has none yet) or \<open>undefined\<close>\<close>
  "lookup v sessionId m =
     (case m sessionId of
        Some e \<Rightarrow> Is_entry e
      | None \<Rightarrow>
          if sessionId \<in> set object_prototype_names then Is_other
          else
            (case m ''__proto__'' of
               None \<Rightarrow> Is_undefined
             | Some e \<Rightarrow>
                 if sessionId \<in> set (entry_fields v) then Is_other
                 else if sessionId = ''lastQr''
                   then (if lastQr e = None then Is_null else Is_other)
                 else Is_undefined))"

definition type_error :: "string \<Rightarrow> string" where
  \<comment> \<open>the message of the \<open>TypeError\<close> for a write of \<open>lastQr\<close> through \<open>undefined\<close> or
      \<open>null\<close>\<close>
  "type_error what =
     ''Cannot set properties of '' @ what @ '' (setting '' @ [CHR 0x27] @ ''lastQr''
       @ [CHR 0x27] @ '')''"

definition emit :: "dest \<Rightarrow> string \<Rightarrow> jv \<Rightarrow> state \<Rightarrow> state" where
  "emit d name payload s = s\<lparr>emitted := emitted s @ [(d, name, payload)]\<rparr>"

definition status_name :: "status \<Rightarrow> string" where
  "status_name st =
     (case st of Loading \<Rightarrow> ''loading'' | Qr_received \<Rightarrow> ''qr_received''
      | Connected \<Rightarrow> ''connected'' | Disconnected \<Rightarrow> ''disconnected''
      | Logged_out \<Rightarrow> ''logged_out'')"

definition or_undefined :: "string option \<Rightarrow> jv" where
  "or_undefined x = (case x of None \<Rightarrow> Undefined | Some v \<Rightarrow> Str v)"

definition truthy :: "string option \<Rightarrow> bool" where
  \<comment> \<open>a string or \<open>undefined\<close> used as a condition: \<open>undefined\<close> and \<open>''\<close> are falsy\<close>
  "truthy x = (case x of None \<Rightarrow> False | Some v \<Rightarrow> v \<noteq> [])"

definition str :: "string option \<Rightarrow> string" where
  \<comment> \<open>the string held by a value known to be truthy\<close>
  "str x = (case x of None \<Rightarrow> [] | Some v \<Rightarrow> v)"

definition err_text :: "string \<Rightarrow> string" where
  \<comment> \<open>\<^verbatim>\<open>err?.message || String(err)\<close> for an \<open>Error\<close> with the given message\<close>
  "err_text m = (if m = [] then ''Error'' else m)"

subsection \<open>\<open>sessionStore\<close>\<close>

text \<open>
  \<^verbatim>\<open>
  async upsert(sessionId, { phone=null, status='loading' } = {}) {
    ... INSERT INTO sessions (session_id, phone_number, status) VALUES (?, ?, ?)
        ON DUPLICATE KEY UPDATE phone_number=VALUES(phone_number), status=VALUES(status), ...
  async updateStatus(sessionId, status) {
    ... UPDATE sessions SET status=? WHERE session_id=?
  async setPhone(sessionId, phone) {          // server.js
    ... UPDATE sessions SET phone_number=?, ... WHERE session_id=?
  \<close>
\<close>

definition upsert :: "string \<Rightarrow> string option \<Rightarrow> status \<Rightarrow> state \<Rightarrow> state" where
  "upsert sessionId phone st s =
     s\<lparr>sessions := (sessions s)(sessionId \<mapsto> \<lparr>phone_number = phone, status = st\<rparr>)\<rparr>"

definition updateStatus :: "string \<Rightarrow> status \<Rightarrow> state \<Rightarrow> state" where
  "updateStatus sessionId st s =
     (case sessions s sessionId of
        None \<Rightarrow> s
      | Some r \<Rightarrow> s\<lparr>sessions := (sessions s)(sessionId \<mapsto> r\<lparr>status := st\<rparr>)\<rparr>)"

definition setPhone :: "string \<Rightarrow> string \<Rightarrow> state \<Rightarrow> state" where
  "setPhone sessionId phone s =
     (case sessions s sessionId of
        None \<Rightarrow> s
      | Some r \<Rightarrow> s\<lparr>sessions := (sessions s)(sessionId \<mapsto> r\<lparr>phone_number := Some phone\<rparr>)\<rparr>)"

subsection \<open>\<open>messageStore\<close>\<close>

text \<open>
  \<^verbatim>\<open>
  async insert({ sessionId=null, direction='in', from=null, to=null, text=null, media_type=null, ... }) {
    ... INSERT INTO messages (session_id, direction, from_who, to_who, text, media_type, ...) VALUES (...)
  async history(sessionId, limit=100) {       // app.js
    ... SELECT * FROM messages WHERE session_id=? ORDER BY id DESC LIMIT ?
  async list(limit = 200) {                   // server.js
    ... SELECT * FROM messages ORDER BY created_at DESC LIMIT ?
  \<close>
  \<open>id\<close> is the table's \<open>AUTO_INCREMENT\<close> key and \<open>created_at\<close> its
  \<open>CURRENT_TIMESTAMP\<close>. SQL leaves the order of rows with equal sort keys open; the
  model orders them by a stable sort, reversed.

  The limit of \<open>history\<close> is a JavaScript number that comes from \<^verbatim>\<open>parseInt\<close>: \<open>NaN\<close>,
  an infinity, or an integer. The driver writes it into the statement as JavaScript
  prints it, and \<open>LIMIT\<close> takes an unsigned integer literal of at most
  18446744073709551615: any other limit makes the statement invalid, and the query
  rejects.
\<close>

datatype number = NaN | Infinity | Integer int


definition insert_message ::
  "string option \<Rightarrow> direction \<Rightarrow> string option \<Rightarrow> string option \<Rightarrow> string option \<Rightarrow>
   string option \<Rightarrow> state \<Rightarrow> state" where
  "insert_message sessionId dir from to txt media s =
     s\<lparr>messages := messages s @
          [\<lparr>msg_id = next_id s, session_id = sessionId, direction = dir, from_who = from,
            to_who = to, msg_text = txt, media_type = media, created_at = now s\<rparr>],
       next_id := Suc (next_id s)\<rparr>"





section \<open>The connection supervisor\<close>

subsection \<open>Credential store\<close>

text \<open>
  app.js takes \<^verbatim>\<open>useMySQLAuthState\<close> and \<^verbatim>\<open>clearSession\<close> from the module mysql-auth,
  which is not among the sources; server.js uses the protocol library's file store.
\<close>

definition useAuthState :: "string \<Rightarrow> state \<Rightarrow> string option" where
  \<comment> \<open>Modelled from the spec: \<open>useMySQLAuthState\<close> of the missing module mysql-auth,
      "load(sessionId) \<rightarrow> credentials | none", an absent entry starting a fresh pairing.\<close>
  "useAuthState sessionId s = credentials s sessionId"

definition clearSession :: "string \<Rightarrow> state \<Rightarrow> state" where
  \<comment> \<open>Modelled from the spec: \<open>clearSession\<close> of the missing module mysql-auth, which
      purges the credential-store entry of the session.\<close>
  "clearSession sessionId s = s\<lparr>credentials := (credentials s)(sessionId := None)\<rparr>"

subsection \<open>\<open>startBaileysSession\<close>\<close>

text \<open>
  \<^verbatim>\<open>
  async function startBaileysSession(sessionId, socketClient=null) {
    if (SESSIONS[sessionId] && SESSIONS[sessionId].sock) return SESSIONS[sessionId].sock;
    await sessionStore.upsert(sessionId, { status: 'loading' });
    const { state, saveCreds } = await useMySQLAuthState(pool, sessionId);
    const { version } = await fetchLatestBaileysVersion().catch(() => ({ version: [4, 0, 0] }));
    const sock = makeWASocket({ auth: state, version, ... });
    SESSIONS[sessionId] = { sock, lastQr: null, createdAt: Date.now(), contacts: {} };
    ... sock.ev.on(...) ...
    return sock;
  }
  \<close>
  The function suspends at each \<^verbatim>\<open>await\<close>, and other handlers run in between. It is
  therefore modelled by its program counter: one step runs the code between two
  suspension points. The store write of \<^verbatim>\<open>upsert\<close> happens while the caller is
  suspended, so it belongs to the step that resumes after it. \<open>fetched\<close> is the answer of
  \<^verbatim>\<open>fetchLatestBaileysVersion\<close>, \<open>None\<close> when it rejects; loading the credentials and
  \<^verbatim>\<open>makeWASocket\<close> are taken to succeed. server.js differs in the credential store and
  in the fallback version \<^verbatim>\<open>[2,2323,9]\<close>.
\<close>

datatype pc = Entry | Await_upsert | Await_auth | Await_version "string option" | Returned nat

definition fallback_version :: "variant \<Rightarrow> nat list" where
  "fallback_version v = (case v of App_js \<Rightarrow> [4, 0, 0] | Server_js \<Rightarrow> [2, 2323, 9])"

definition start_step ::
  "variant \<Rightarrow> nat list option \<Rightarrow> string \<Rightarrow> nat option \<Rightarrow> pc \<times> state \<Rightarrow> pc \<times> state" where
  "start_step v fetched sessionId socketClient cfg =
     (case cfg of (p, s) \<Rightarrow>
       (case p of
          Entry \<Rightarrow>
            (case SESSIONS s sessionId of
               Some e \<Rightarrow> (Returned (sock e), s)
             | None \<Rightarrow> (Await_upsert, s))
        | Await_upsert \<Rightarrow> (Await_auth, upsert sessionId None Loading s)
        | Await_auth \<Rightarrow> (Await_version (useAuthState sessionId s), s)
        | Await_version auth \<Rightarrow>
            (let version = (case fetched of None \<Rightarrow> fallback_version v | Some n \<Rightarrow> n);
                 k = length (sockets s)
             in (Returned k,
                 s\<lparr>sockets := sockets s @
                      [\<lparr>ws_session = sessionId, ws_auth = auth, ws_version = version,
                        ws_client = socketClient\<rparr>],
                   SESSIONS := (SESSIONS s)(sessionId \<mapsto>
                      \<lparr>sock = k, lastQr = None, createdAt = now s\<rparr>)\<rparr>))
        | Returned k \<Rightarrow> (Returned k, s)))"

text \<open>A call that nothing interleaves with: the four steps in a row.\<close>

definition startBaileysSession ::
  "variant \<Rightarrow> nat list option \<Rightarrow> string \<Rightarrow> nat option \<Rightarrow> state \<Rightarrow> pc \<times> state" where
  "startBaileysSession v fetched sessionId socketClient s =
     (let step = start_step v fetched sessionId socketClient
      in step (step (step (step (Entry, s)))))"

text \<open>
  Concurrent calls: each task is a call of \<^verbatim>\<open>startBaileysSession\<close> with its program
  counter, and a schedule names the task that the event loop resumes next.
\<close>

record task =
  t_session :: string
  t_client :: "nat option"
  t_pc :: pc

fun run :: "variant \<Rightarrow> nat list option \<Rightarrow> nat list \<Rightarrow> task list \<times> state \<Rightarrow> task list \<times> state" where
  "run v fetched [] cfg = cfg"
| "run v fetched (i # sched) (ts, s) =
     (if i < length ts then
        (case start_step v fetched (t_session (ts ! i)) (t_client (ts ! i)) (t_pc (ts ! i), s) of
           (p, s') \<Rightarrow> run v fetched sched (ts[i := (ts ! i)\<lparr>t_pc := p\<rparr>], s'))
      else run v fetched sched (ts, s))"

definition initial :: state where
  "initial = \<lparr>SESSIONS = Map.empty, sessions = Map.empty, messages = [], next_id = 1,
     credentials = Map.empty, sockets = [], user = Map.empty, timers = [], emitted = [],
     calls = [], now = 0\<rparr>"

subsection \<open>Connection updates\<close>

text \<open>
  \<^verbatim>\<open>
  sock.ev.on('connection.update', async (update) => {
    const { connection, lastDisconnect, qr } = update;
    if (qr) {
      try {                                                       // no try in server.js
        const qrData = await qrcode.toDataURL(qr);
        SESSIONS[sessionId].lastQr = qrData;
        if (socketClient) socketClient.emit('qr', { sessionId, qr: qrData });
        io.emit('session', { id: sessionId, status: 'qr_received' });
        await sessionStore.updateStatus(sessionId, 'qr_received');
      } catch(e){}
    }
    if (connection === 'open') {
      try {
        const me = sock.user || {};
        const phone = me?.id?.split(':')[0];
        if (phone) await sessionStore.upsert(sessionId, { phone, status: 'connected' });
      } catch(e){}
      io.emit('session', { id: sessionId, status: 'connected' });
      await sessionStore.updateStatus(sessionId, 'connected');
      io.emit('session-connected', { sessionId, user: sock.user });
      ...
    }
    if (connection === 'close') {
      const code = lastDisconnect?.error?.output?.statusCode;
      if (code === DisconnectReason.loggedOut) {
        await sessionStore.updateStatus(sessionId, 'logged_out');
        io.emit('session', { id: sessionId, status: 'logged_out' });
        delete SESSIONS[sessionId];
        io.emit('log', `[${sessionId}] logged_out`);
      } else {
        await sessionStore.updateStatus(sessionId, 'disconnected');
        io.emit('session', { id: sessionId, status: 'disconnected' });
        io.emit('log', `[${sessionId}] disconnected - will attempt reconnect in 3s`);
        setTimeout(() => startBaileysSession(sessionId).catch(logger.error), 3000);
      }
    }
  });
  \<close>
  \<open>statusCode\<close> is \<^verbatim>\<open>lastDisconnect?.error?.output?.statusCode\<close>; \<open>toDataURL\<close> is the
  QR encoder, \<open>Inl\<close> when it rejects. \<open>DisconnectReason.loggedOut\<close> is the protocol
  library's constant 401. The contact snapshot that app.js sends after \<open>open\<close> only emits
  an event inside a \<^verbatim>\<open>try\<close> and is left out, as are the listeners that only relay
  an event of the socket to the clients (contacts, groups, presence, and the second
  listener of \<open>connection.update\<close> in app.js). The handler is the three \<^verbatim>\<open>if\<close>
  statements in a row. In the first, \<^verbatim>\<open>SESSIONS[sessionId].lastQr = qrData\<close> throws a
  \<open>TypeError\<close> when \<^verbatim>\<open>SESSIONS[sessionId]\<close> reads \<open>undefined\<close> or \<open>null\<close>; when it reads
  an inherited value that is not an entry, the write does not reach the registry and
  the handler goes on.
\<close>

datatype conn = Open | Close | Connecting

record conn_update =
  connection :: "conn option"
  statusCode :: "nat option"
  qr :: "string option"

definition loggedOut :: nat where
  "loggedOut = 401"

definition session_event :: "string \<Rightarrow> status \<Rightarrow> state \<Rightarrow> state" where
  \<comment> \<open>\<^verbatim>\<open>io.emit('session', { id: sessionId, status })\<close>\<close>
  "session_event sessionId st =
     emit Everyone ''session'' (Obj [(''id'', Str sessionId), (''status'', Str (status_name st))])"

definition phone_of :: "string option \<Rightarrow> string" where
  \<comment> \<open>\<^verbatim>\<open>me?.id?.split(':')[0]\<close>, the empty string standing for \<open>undefined\<close>\<close>
  "phone_of uid = (case uid of None \<Rightarrow> [] | Some u \<Rightarrow> takeWhile (\<lambda>c. c \<noteq> CHR '':'') u)"

definition user_value :: "string option \<Rightarrow> jv" where
  "user_value uid = (case uid of None \<Rightarrow> Undefined | Some u \<Rightarrow> Obj [(''id'', Str u)])"

definition qr_update_app ::
  "(string \<Rightarrow> string + string) \<Rightarrow> string \<Rightarrow> nat option \<Rightarrow> conn_update \<Rightarrow> state \<Rightarrow> state" where
  "qr_update_app toDataURL sessionId socketClient upd s =
     (if truthy (qr upd) then
        (case toDataURL (str (qr upd)) of
           Inl err \<Rightarrow> s
         | Inr qrData \<Rightarrow>
             (let continue = (\<lambda>a.
                    let b = (case socketClient of
                               None \<Rightarrow> a
                             | Some cl \<Rightarrow>
                                 emit (Client cl) ''qr''
                                   (Obj [(''sessionId'', Str sessionId), (''qr'', Str qrData)]) a);
                        c = session_event sessionId Qr_received b
                    in updateStatus sessionId Qr_received c)
              in case lookup App_js sessionId (SESSIONS s) of
                   Is_entry e \<Rightarrow>
                     continue
                       (s\<lparr>SESSIONS := (SESSIONS s)(sessionId \<mapsto> e\<lparr>lastQr := Some qrData\<rparr>)\<rparr>)
                 | Is_other \<Rightarrow> continue s
                 | Is_null \<Rightarrow> s
                 | Is_undefined \<Rightarrow> s))
      else s)"

definition open_update_app :: "string \<Rightarrow> nat \<Rightarrow> conn_update \<Rightarrow> state \<Rightarrow> state" where
  "open_update_app sessionId sk upd s =
     (if connection upd = Some Open then
        (let phone = phone_of (user s sk);
             a = (if phone \<noteq> [] then upsert sessionId (Some phone) Connected s else s);
             b = session_event sessionId Connected a;
             c = updateStatus sessionId Connected b
         in emit Everyone ''session-connected''
              (Obj [(''sessionId'', Str sessionId), (''user'', user_value (user s sk))]) c)
      else s)"

definition close_update_app :: "string \<Rightarrow> conn_update \<Rightarrow> state \<Rightarrow> state" where
  "close_update_app sessionId upd s =
     (if connection upd = Some Close then
        (if statusCode upd = Some loggedOut then
           (let a = updateStatus sessionId Logged_out s;
                b = session_event sessionId Logged_out a;
                c = b\<lparr>SESSIONS := registry_delete sessionId (SESSIONS b)\<rparr>
            in emit Everyone ''log'' (Str (''['' @ sessionId @ ''] logged_out'')) c)
         else
           (let a = updateStatus sessionId Disconnected s;
                b = session_event sessionId Disconnected a;
                c = emit Everyone ''log''
                      (Str (''['' @ sessionId @ ''] disconnected - will attempt reconnect in 3s'')) b
            in c\<lparr>timers := timers c @
                  [\<lparr>delay = 3000, restart = sessionId, restart_client = None\<rparr>]\<rparr>))
      else s)"

definition on_connection_update_app ::
  "(string \<Rightarrow> string + string) \<Rightarrow> string \<Rightarrow> nat \<Rightarrow> nat option \<Rightarrow> conn_update \<Rightarrow> state \<Rightarrow> state" where
  "on_connection_update_app toDataURL sessionId sk socketClient upd s =
     close_update_app sessionId upd
       (open_update_app sessionId sk upd
          (qr_update_app toDataURL sessionId socketClient upd s))"

text \<open>
  server.js has the same handler with three differences: the QR branch is not inside a
  \<^verbatim>\<open>try\<close>, so a failure there rejects the handler before it reads \<open>connection\<close>;
  \<open>open\<close> writes the phone with \<^verbatim>\<open>setPhone\<close> and emits \<open>ready\<close> first; and the timer
  passes \<open>socketClient\<close> on:
  \<^verbatim>\<open>
        // try reconnect after short delay
        setTimeout(() => startBaileysSession(sessionId, socketClient).catch(logger.error), 3000);
  \<close>
\<close>

definition qr_update_server ::
  "(string \<Rightarrow> string + string) \<Rightarrow> string \<Rightarrow> nat option \<Rightarrow> conn_update \<Rightarrow> state
   \<Rightarrow> string + state" where
  "qr_update_server toDataURL sessionId socketClient upd s =
     (if truthy (qr upd) then
        (case toDataURL (str (qr upd)) of
           Inl err \<Rightarrow> Inl err
         | Inr qrData \<Rightarrow>
             (let continue = (\<lambda>a.
                    let b = (case socketClient of
                               None \<Rightarrow> a
                             | Some cl \<Rightarrow>
                                 emit (Client cl) ''qr''
                                   (Obj [(''id'', Str sessionId), (''qr'', Str qrData)]) a);
                        c = session_event sessionId Qr_received b
                    in updateStatus sessionId Qr_received c)
              in case lookup Server_js sessionId (SESSIONS s) of
                   Is_entry e \<Rightarrow>
                     Inr (continue
                       (s\<lparr>SESSIONS := (SESSIONS s)(sessionId \<mapsto> e\<lparr>lastQr := Some qrData\<rparr>)\<rparr>))
                 | Is_other \<Rightarrow> Inr (continue s)
                 | Is_null \<Rightarrow> Inl (type_error ''null'')
                 | Is_undefined \<Rightarrow> Inl (type_error ''undefined'')))
      else Inr s)"

definition open_update_server :: "string \<Rightarrow> nat \<Rightarrow> conn_update \<Rightarrow> state \<Rightarrow> state" where
  "open_update_server sessionId sk upd s =
     (if connection upd = Some Open then
        (let phone = phone_of (user s sk);
             a = (if phone \<noteq> [] then setPhone sessionId phone s else s);
             b = emit Everyone ''ready''
                   (Obj [(''id'', Str sessionId), (''user'', user_value (user s sk))]) a;
             c = session_event sessionId Connected b
         in updateStatus sessionId Connected c)
      else s)"

definition close_update_server :: "string \<Rightarrow> nat option \<Rightarrow> conn_update \<Rightarrow> state \<Rightarrow> state" where
  "close_update_server sessionId socketClient upd s =
     (if connection upd = Some Close then
        (if statusCode upd = Some loggedOut then
           (let a = updateStatus sessionId Logged_out s;
                b = session_event sessionId Logged_out a
            in b\<lparr>SESSIONS := registry_delete sessionId (SESSIONS b)\<rparr>)
         else
           (let a = updateStatus sessionId Disconnected s;
                b = session_event sessionId Disconnected a
            in b\<lparr>timers := timers b @
                  [\<lparr>delay = 3000, restart = sessionId, restart_client = socketClient\<rparr>]\<rparr>))
      else s)"

definition on_connection_update_server ::
  "(string \<Rightarrow> string + string) \<Rightarrow> string \<Rightarrow> nat \<Rightarrow> nat option \<Rightarrow> conn_update \<Rightarrow> state
   \<Rightarrow> string + state" where
  "on_connection_update_server toDataURL sessionId sk socketClient upd s =
     (case qr_update_server toDataURL sessionId socketClient upd s of
        Inl err \<Rightarrow> Inl err
      | Inr s1 \<Rightarrow>
          Inr (close_update_server sessionId socketClient upd (open_update_server sessionId sk upd s1)))"

text \<open>
  The timers all have the same delay, so they fire in the order they were set. Firing
  one runs its callback, a call of \<^verbatim>\<open>startBaileysSession\<close>.
\<close>

definition fire_timer :: "variant \<Rightarrow> nat list option \<Rightarrow> state \<Rightarrow> state" where
  "fire_timer v fetched s =
     (case timers s of
        [] \<Rightarrow> s
      | t # ts \<Rightarrow>
          snd (startBaileysSession v fetched (restart t) (restart_client t) (s\<lparr>timers := ts\<rparr>)))"


subsection \<open>Inbound messages\<close>

text \<open>
  app.js:
  \<^verbatim>\<open>
  sock.ev.on('messages.upsert', async (m) => {
    const messages = m.messages || [];
    for (const msg of messages) {
      if (!msg.message || msg.key?.remoteJid === 'status@broadcast') continue;
      let text = '';
      if (msg.message.conversation) text = msg.message.conversation;
      else if (msg.message.extendedTextMessage?.text) text = msg.message.extendedTextMessage.text;
      else if (msg.message.imageMessage?.caption) text = msg.message.imageMessage.caption;
      await messageStore.insert({
        sessionId, direction: msg.key.fromMe ? 'out' : 'in', from: msg.key.remoteJid,
        to: sock.user?.id || null, text,
        media_type: msg.message?.imageMessage ? 'image' : (msg.message?.documentMessage ? 'document' : null)
      });
      io.emit('message', { sessionId, from: msg.key.remoteJid, text, key: msg.key });
    }
  });
  \<close>
  server.js:
  \<^verbatim>\<open>
  sock.ev.on('messages.upsert', async (m) => {
    const messages = m.messages || [];
    if (!messages.length) return;
    const msg = messages[0];
    if (!msg.message || msg.key.remoteJid === 'status@broadcast') return;
    ... text as above ...
    await messageStore.insert({ sessionId, direction: 'in', from: msg.key.remoteJid, to: sock.user?.id || null, text });
    io.emit('message', { id: sessionId, from: msg.key.remoteJid, text });
  });
  \<close>
\<close>

record content =
  conversation :: "string option"
  extendedTextMessage_text :: "string option"
  imageMessage :: "string option option"
  documentMessage :: bool

record wa_message =
  key_remoteJid :: string
  key_fromMe :: bool
  message :: "content option"

definition or_none :: "string option \<Rightarrow> string option" where
  \<comment> \<open>\<^verbatim>\<open>x || null\<close>\<close>
  "or_none x = (if truthy x then x else None)"

definition extract_text :: "content \<Rightarrow> string" where
  "extract_text c =
     (let caption = (case imageMessage c of None \<Rightarrow> None | Some cap \<Rightarrow> cap) in
      if truthy (conversation c) then str (conversation c)
      else if truthy (extendedTextMessage_text c) then str (extendedTextMessage_text c)
      else if truthy caption then str caption
      else [])"

definition media_of :: "content \<Rightarrow> string option" where
  "media_of c =
     (if imageMessage c \<noteq> None then Some ''image''
      else if documentMessage c then Some ''document'' else None)"

definition skipped :: "wa_message \<Rightarrow> bool" where
  \<comment> \<open>\<^verbatim>\<open>!msg.message || msg.key?.remoteJid === 'status@broadcast'\<close>\<close>
  "skipped msg \<longleftrightarrow> message msg = None \<or> key_remoteJid msg = ''status@broadcast''"

definition message_event_app :: "string \<Rightarrow> wa_message \<Rightarrow> string \<Rightarrow> event" where
  "message_event_app sessionId msg txt =
     (Everyone, ''message'',
      Obj [(''sessionId'', Str sessionId), (''from'', Str (key_remoteJid msg)), (''text'', Str txt),
           (''key'', Obj [(''remoteJid'', Str (key_remoteJid msg)),
                          (''fromMe'', Bool (key_fromMe msg))])])"

definition message_event_server :: "string \<Rightarrow> wa_message \<Rightarrow> string \<Rightarrow> event" where
  "message_event_server sessionId msg txt =
     (Everyone, ''message'',
      Obj [(''id'', Str sessionId), (''from'', Str (key_remoteJid msg)), (''text'', Str txt)])"

definition store_inbound_app :: "string \<Rightarrow> nat \<Rightarrow> wa_message \<Rightarrow> content \<Rightarrow> state \<Rightarrow> state" where
  \<comment> \<open>the body of the loop for a message that is not skipped; \<open>c\<close> is \<open>msg.message\<close>\<close>
  "store_inbound_app sessionId sk msg c s =
     (let txt = extract_text c;
          a = insert_message (Some sessionId) (if key_fromMe msg then Dir_out else Dir_in)
                (Some (key_remoteJid msg)) (or_none (user s sk)) (Some txt) (media_of c) s
      in a\<lparr>emitted := emitted a @ [message_event_app sessionId msg txt]\<rparr>)"

fun on_messages_upsert_app :: "string \<Rightarrow> nat \<Rightarrow> wa_message list \<Rightarrow> state \<Rightarrow> state" where
  "on_messages_upsert_app sessionId sk [] s = s"
| "on_messages_upsert_app sessionId sk (msg # rest) s =
     (case message msg of
        None \<Rightarrow> on_messages_upsert_app sessionId sk rest s
      | Some c \<Rightarrow>
          if key_remoteJid msg = ''status@broadcast''
          then on_messages_upsert_app sessionId sk rest s
          else on_messages_upsert_app sessionId sk rest (store_inbound_app sessionId sk msg c s))"

definition on_messages_upsert_server :: "string \<Rightarrow> nat \<Rightarrow> wa_message list \<Rightarrow> state \<Rightarrow> state" where
  "on_messages_upsert_server sessionId sk msgs s =
     (case msgs of
        [] \<Rightarrow> s
      | msg # rest \<Rightarrow>
          (case message msg of
             None \<Rightarrow> s
           | Some c \<Rightarrow>
               if key_remoteJid msg = ''status@broadcast'' then s
               else
                 (let txt = extract_text c;
                      a = insert_message (Some sessionId) Dir_in (Some (key_remoteJid msg))
                            (or_none (user s sk)) (Some txt) None s
                  in a\<lparr>emitted := emitted a @ [message_event_server sessionId msg txt]\<rparr>)))"

section \<open>The command gateway\<close>

text \<open>
  A command arrives on a client's socket with a payload object; a field that is absent
  is \<open>None\<close>. app.js takes the session id by a default parameter
  (\<^verbatim>\<open>{ sessionId='main', ... }\<close>), which replaces \<open>undefined\<close> only; server.js by
  \<^verbatim>\<open>if (!sessionId) sessionId = 'main'\<close>, which replaces the empty string too.
\<close>

definition default_app :: "string option \<Rightarrow> string" where
  "default_app sessionId = (case sessionId of None \<Rightarrow> ''main'' | Some i \<Rightarrow> i)"

definition default_server :: "string option \<Rightarrow> string" where
  "default_server sessionId = (if truthy sessionId then str sessionId else ''main'')"

subsection \<open>\<open>send-message\<close>\<close>

text \<open>
  app.js:
  \<^verbatim>\<open>
  socket.on('send-message', async ({ sessionId='main', to, message }) => {
    try {
      const s = SESSIONS[sessionId];
      if (!s || !s.sock) return socket.emit('error-message', 'session not active');
      const jid = formatJid(to);
      await s.sock.sendMessage(jid, { text: message });
      await messageStore.insert({ sessionId, direction: 'out', from: s.sock.user?.id || null, to: jid, text: message });
      socket.emit('success-message', 'Message sent');
    } catch (err) {
      socket.emit('error-message', err?.message || String(err));
    }
  });
  \<close>
  server.js differs in the events: \<open>error\<close> for \<open>error-message\<close>, and on success
  \<^verbatim>\<open>
      socket.emit('message-sent', { id: sessionId, to: jid, message });
      io.emit('message-sent', { id: sessionId, to: jid, message });
  \<close>
  \<open>sent\<close> is the outcome of \<^verbatim>\<open>sock.sendMessage\<close>: \<open>None\<close> when it resolves, the
  message of the error when it rejects.
\<close>

record send_payload =
  sm_sessionId :: "string option"
  sm_to :: "string option"
  sm_message :: "string option"

definition send_message_app :: "string option \<Rightarrow> nat \<Rightarrow> send_payload \<Rightarrow> state \<Rightarrow> state" where
  "send_message_app sent client p s =
     (let sessionId = default_app (sm_sessionId p) in
      case SESSIONS s sessionId of
        None \<Rightarrow> emit (Client client) ''error-message'' (Str ''session not active'') s
      | Some e \<Rightarrow>
          (case formatJid (sm_to p) of
             Inl err \<Rightarrow> emit (Client client) ''error-message'' (Str (err_text err)) s
           | Inr jid \<Rightarrow>
               (let a = s\<lparr>calls := calls s @ [SendMessage (sock e) jid (sm_message p)]\<rparr> in
                case sent of
                  Some err \<Rightarrow> emit (Client client) ''error-message'' (Str (err_text err)) a
                | None \<Rightarrow>
                    emit (Client client) ''success-message'' (Str ''Message sent'')
                      (insert_message (Some sessionId) Dir_out (or_none (user a (sock e)))
                         (Some jid) (sm_message p) None a))))"

definition send_message_server :: "string option \<Rightarrow> nat \<Rightarrow> send_payload \<Rightarrow> state \<Rightarrow> state" where
  "send_message_server sent client p s =
     (let sessionId = default_server (sm_sessionId p) in
      case SESSIONS s sessionId of
        None \<Rightarrow> emit (Client client) ''error'' (Str ''session not active'') s
      | Some e \<Rightarrow>
          (case formatJid (sm_to p) of
             Inl err \<Rightarrow> emit (Client client) ''error'' (Str (err_text err)) s
           | Inr jid \<Rightarrow>
               (let a = s\<lparr>calls := calls s @ [SendMessage (sock e) jid (sm_message p)]\<rparr> in
                case sent of
                  Some err \<Rightarrow> emit (Client client) ''error'' (Str (err_text err)) a
                | None \<Rightarrow>
                    (let payload = Obj [(''id'', Str sessionId), (''to'', Str jid),
                                        (''message'', or_undefined (sm_message p))];
                         b = insert_message (Some sessionId) Dir_out (or_none (user a (sock e)))
                               (Some jid) (sm_message p) None a
                     in emit Everyone ''message-sent'' payload
                          (emit (Client client) ''message-sent'' payload b)))))"

text \<open>
  The REST route of server.js for the same command:
  \<^verbatim>\<open>
  app.post('/api/send', requireApiKey, async (req, res) => {
    try {
      const { sessionId='main', to, message } = req.body;
      if (!to || !message) return res.status(400).json({ error: 'to and message required' });
      const s = SESSIONS[sessionId];
      if (!s || !s.sock) return res.status(404).json({ error: 'session not active' });
      const jid = formatJid(to);
      await s.sock.sendMessage(jid, { text: message });
      await messageStore.insert({ sessionId, direction: 'out', from: s.sock.user?.id || null, to: jid, text: message });
      res.json({ ok: true });
    } catch (err) { res.status(500).json({ error: err.message || String(err) }); }
  });
  \<close>
  The response is its status code and body.
\<close>

definition api_send :: "string option \<Rightarrow> send_payload \<Rightarrow> state \<Rightarrow> (nat \<times> jv) \<times> state" where
  "api_send sent body s =
     (let sessionId = default_app (sm_sessionId body) in
      if \<not> (truthy (sm_to body) \<and> truthy (sm_message body)) then
        ((400, Obj [(''error'', Str ''to and message required'')]), s)
      else
        (case SESSIONS s sessionId of
           None \<Rightarrow> ((404, Obj [(''error'', Str ''session not active'')]), s)
         | Some e \<Rightarrow>
             (case formatJid (sm_to body) of
                Inl err \<Rightarrow> ((500, Obj [(''error'', Str (err_text err))]), s)
              | Inr jid \<Rightarrow>
                  (let a = s\<lparr>calls := calls s @ [SendMessage (sock e) jid (sm_message body)]\<rparr> in
                   case sent of
                     Some err \<Rightarrow> ((500, Obj [(''error'', Str (err_text err))]), a)
                   | None \<Rightarrow>
                       ((200, Obj [(''ok'', Bool True)]),
                        insert_message (Some sessionId) Dir_out (or_none (user a (sock e)))
                          (Some jid) (sm_message body) None a)))))"


subsection \<open>\<open>broadcast\<close>\<close>










subsection \<open>\<open>logout\<close>\<close>

text \<open>
  app.js:
  \<^verbatim>\<open>
  socket.on('logout-session', async ({ sessionId='main' } = {}) => {
    try {
      const s = SESSIONS[sessionId];
      if (s && s.sock) {
        try { await s.sock.logout(); } catch(e){/*ignore*/ }
        delete SESSIONS[sessionId];
      }
      await sessionStore.updateStatus(sessionId, 'logged_out');
      // optionally clear mysql-auth creds
      try { await clearSession(pool, sessionId); } catch(e){ /* ignore */ }
      socket.emit('success-message', 'Logged out');
      io.emit('session', { id: sessionId, status: 'logged_out' });
    } catch (err) { socket.emit('error-message', err?.message || String(err)); }
  });
  \<close>
  server.js (\<open>logout\<close>) does not call \<^verbatim>\<open>clearSession\<close> and answers with
  \<^verbatim>\<open>socket.emit('logged-out', { id: sessionId })\<close>. The handlers read \<open>sessionId\<close> only:
  any other field of the payload, such as a request to purge the credentials, is
  ignored. \<open>loggedout\<close> and \<open>cleared\<close> are the outcomes of \<^verbatim>\<open>sock.logout\<close> and
  \<^verbatim>\<open>clearSession\<close>: \<open>None\<close> when they resolve, the error when they reject.
\<close>

record logout_payload =
  lo_sessionId :: "string option"
  lo_purgeCredentials :: "bool option"

definition logout_session_app ::
  "string option \<Rightarrow> string option \<Rightarrow> nat \<Rightarrow> logout_payload \<Rightarrow> state \<Rightarrow> state" where
  "logout_session_app loggedout cleared client p s =
     (let sessionId = default_app (lo_sessionId p);
          a = (case SESSIONS s sessionId of
                 None \<Rightarrow> s
               | Some e \<Rightarrow> s\<lparr>calls := calls s @ [Logout (sock e)],
                             SESSIONS := registry_delete sessionId (SESSIONS s)\<rparr>);
          b = updateStatus sessionId Logged_out a;
          b' = b\<lparr>calls := calls b @ [ClearSession sessionId]\<rparr>;
          c = (case cleared of None \<Rightarrow> clearSession sessionId b' | Some err \<Rightarrow> b');
          d = emit (Client client) ''success-message'' (Str ''Logged out'') c
      in session_event sessionId Logged_out d)"

definition logout_server ::
  "string option \<Rightarrow> nat \<Rightarrow> logout_payload \<Rightarrow> state \<Rightarrow> state" where
  "logout_server loggedout client p s =
     (let sessionId = default_server (lo_sessionId p);
          a = (case SESSIONS s sessionId of
                 None \<Rightarrow> s
               | Some e \<Rightarrow> s\<lparr>calls := calls s @ [Logout (sock e)],
                             SESSIONS := registry_delete sessionId (SESSIONS s)\<rparr>);
          b = updateStatus sessionId Logged_out a;
          c = emit (Client client) ''logged-out'' (Obj [(''id'', Str sessionId)]) b
      in session_event sessionId Logged_out c)"

subsection \<open>Message history over REST\<close>




section \<open>Properties of the address normalizer\<close>

lemma endsWith_iff: "endsWith s t \<longleftrightarrow> (\<exists>p. s = p @ t)"
  unfolding endsWith_def
  by (metis append_eq_conv_conj append_take_drop_id diff_add_inverse2 le_add2 length_append)

lemma dropWhile_noop: "xs = [] \<or> \<not> P (hd xs) \<Longrightarrow> dropWhile P xs = xs"
  by (cases xs) auto

lemma last_dropWhile: "dropWhile P xs \<noteq> [] \<Longrightarrow> last (dropWhile P xs) = last xs"
  by (induction xs) (auto split: if_splits)

lemma trim_clean:
  assumes "s = [] \<or> (\<not> js_space (hd s) \<and> \<not> js_space (last s))"
  shows "trim s = s"
proof (cases "s = []")
  case True
  then show ?thesis by (simp add: trim_def)
next
  case False
  with assms have h: "\<not> js_space (hd s)" and l: "\<not> js_space (last s)" by auto
  have a: "dropWhile js_space s = s" using h by (simp add: dropWhile_noop)
  have "hd (rev s) = last s" using False by (simp add: hd_rev)
  then have b: "dropWhile js_space (rev s) = rev s" using l by (simp add: dropWhile_noop)
  show ?thesis by (simp add: trim_def a b)
qed

lemma trim_ends:
  "trim s = [] \<or> (\<not> js_space (hd (trim s)) \<and> \<not> js_space (last (trim s)))"
proof (cases "trim s = []")
  case True
  then show ?thesis by simp
next
  case False
  define d where "d = dropWhile js_space s"
  define u where "u = dropWhile js_space (rev d)"
  have t: "trim s = rev u" by (simp add: trim_def d_def u_def)
  with False have u: "u \<noteq> []" by simp
  then have d: "d \<noteq> []" by (auto simp: u_def)
  have "\<not> js_space (hd u)" using u unfolding u_def by (rule hd_dropWhile)
  then have l: "\<not> js_space (last (trim s))" using u by (simp add: t last_rev)
  have "last u = last (rev d)" using u unfolding u_def by (rule last_dropWhile)
  also have "\<dots> = hd d" using d by (simp add: last_rev)
  finally have "hd (trim s) = hd d" using u by (simp add: t hd_rev)
  moreover have "\<not> js_space (hd d)" using d unfolding d_def by (rule hd_dropWhile)
  ultimately show ?thesis using l by simp
qed

lemma trim_trim: "trim (trim s) = trim s"
  using trim_ends [of s] by (intro trim_clean) blast

lemma filter_dropWhile: "(\<And>x. P x \<Longrightarrow> \<not> Q x) \<Longrightarrow> filter Q (dropWhile P xs) = filter Q xs"
  by (induction xs) auto

lemma digit_not_space: "js_space c \<Longrightarrow> \<not> digit c"
  by (auto simp: js_space_def digit_def)

lemma filter_digit_trim: "filter digit (trim s) = filter digit s"
proof -
  have "filter digit (trim s) = rev (filter digit (dropWhile js_space (rev (dropWhile js_space s))))"
    by (simp add: trim_def rev_filter)
  also have "\<dots> = rev (filter digit (rev (dropWhile js_space s)))"
    by (simp add: filter_dropWhile digit_not_space)
  also have "\<dots> = filter digit (dropWhile js_space s)"
    by (simp add: rev_filter)
  also have "\<dots> = filter digit s"
    by (simp add: filter_dropWhile digit_not_space)
  finally show ?thesis .
qed

lemma trim_digits_suffix: "trim (filter digit s @ user_suffix) = filter digit s @ user_suffix"
proof (rule trim_clean, rule disjI2, rule conjI)
  show "\<not> js_space (hd (filter digit s @ user_suffix))"
  proof (cases "filter digit s")
    case Nil
    then show ?thesis by (simp add: user_suffix_def js_space_def)
  next
    case (Cons c cs)
    then have "c \<in> set (filter digit s)" by simp
    then have "digit c" by simp
    then show ?thesis using Cons digit_not_space by auto
  qed
  show "\<not> js_space (last (filter digit s @ user_suffix))"
    by (simp add: user_suffix_def js_space_def)
qed

lemma formatJid_canonical_fixed:
  assumes "s \<noteq> []" "trim s = s" "endsWith s user_suffix \<or> endsWith s group_suffix"
  shows "formatJid (Some s) = Inr s"
  using assms by (simp add: formatJid_def)

lemma endsWith_nonempty: "endsWith s user_suffix \<or> endsWith s group_suffix \<Longrightarrow> s \<noteq> []"
  by (auto simp: endsWith_def user_suffix_def group_suffix_def)

lemma endsWith_last:
  "endsWith s user_suffix \<or> endsWith s group_suffix \<Longrightarrow> \<not> js_space (last s)"
  by (auto simp: endsWith_iff user_suffix_def group_suffix_def js_space_def)

lemma formatJid_idem:
  "formatJid x = Inr y \<Longrightarrow> formatJid (Some y) = Inr y"
proof -
  assume a: "formatJid x = Inr y"
  then obtain n where x: "x = Some n" and n: "n \<noteq> []"
    by (auto simp: formatJid_def split: option.splits if_splits)
  show ?thesis
  proof (cases "endsWith (trim n) user_suffix \<or> endsWith (trim n) group_suffix")
    case True
    with a x n have y: "y = trim n" by (auto simp: formatJid_def)
    show ?thesis
      using True endsWith_nonempty [OF True] unfolding y
      by (intro formatJid_canonical_fixed) (simp_all add: trim_trim)
  next
    case False
    with a x n have y: "y = filter digit (trim n) @ user_suffix" by (auto simp: formatJid_def)
    have "endsWith y user_suffix" unfolding y endsWith_iff by blast
    moreover have "y \<noteq> []" unfolding y by (simp add: user_suffix_def)
    moreover have "trim y = y" unfolding y by (rule trim_digits_suffix)
    ultimately show ?thesis by (intro formatJid_canonical_fixed) simp_all
  qed
qed

lemma trim_canonical:
  assumes "endsWith s user_suffix \<or> endsWith s group_suffix"
  shows "trim s = dropWhile js_space s"
proof -
  have ne: "s \<noteq> []" using assms by (rule endsWith_nonempty)
  have l: "\<not> js_space (last s)" using assms by (rule endsWith_last)
  define d where "d = dropWhile js_space s"
  have "\<not> (\<forall>c\<in>set s. js_space c)" using ne l last_in_set by blast
  then have d: "d \<noteq> []" by (simp add: d_def)
  then have "last d = last s" unfolding d_def by (rule last_dropWhile)
  then have "\<not> js_space (hd (rev d))" using d l by (simp add: hd_rev)
  then have "dropWhile js_space (rev d) = rev d" by (simp add: dropWhile_noop)
  then show ?thesis by (simp add: trim_def d_def)
qed

lemma endsWith_dropWhile:
  assumes "endsWith s t" "t \<noteq> []" "\<not> js_space (hd t)"
  shows "endsWith (dropWhile js_space s) t"
proof -
  from assms obtain p where s: "s = p @ t" by (auto simp: endsWith_iff)
  have "dropWhile js_space (p @ t) = dropWhile js_space p @ t"
    using assms(2,3) by (cases t) (auto simp: dropWhile_append)
  then show ?thesis unfolding s endsWith_iff by blast
qed

text \<open>
  Claim C9, as the code has it. The suffix test is made on the input with the white
  space around it removed. When that trimmed string ends in a canonical suffix
  (\<open>@s.whatsapp.net\<close> or \<open>@g.us\<close>) it is the result, so an address that ends in a
  suffix and has no white space in front is returned unchanged. Any other non-empty
  input, such as a phone number with separators, is reduced to its digits followed by
  \<open>@s.whatsapp.net\<close>. Normalizing a result again returns it: nothing is transformed
  twice.
\<close>

theorem formatJid_canonical_form:
  "(endsWith (trim s) user_suffix \<or> endsWith (trim s) group_suffix \<longrightarrow>
      formatJid (Some s) = Inr (trim s))
   \<and> ((endsWith s user_suffix \<or> endsWith s group_suffix) \<and> \<not> js_space (hd s) \<longrightarrow>
      formatJid (Some s) = Inr s)
   \<and> (s \<noteq> [] \<and> \<not> endsWith (trim s) user_suffix \<and> \<not> endsWith (trim s) group_suffix \<longrightarrow>
      formatJid (Some s) = Inr (filter digit s @ user_suffix))
   \<and> (formatJid x = Inr y \<longrightarrow> formatJid (Some y) = Inr y)"
proof (intro conjI impI)
  assume c: "endsWith (trim s) user_suffix \<or> endsWith (trim s) group_suffix"
  then have "trim s \<noteq> []" by (rule endsWith_nonempty)
  then have "s \<noteq> []" by (auto simp: trim_def)
  then show "formatJid (Some s) = Inr (trim s)"
    using c by (auto simp: formatJid_def)
next
  assume "(endsWith s user_suffix \<or> endsWith s group_suffix) \<and> \<not> js_space (hd s)"
  then have c: "endsWith s user_suffix \<or> endsWith s group_suffix" and h: "\<not> js_space (hd s)"
    by simp_all
  have ne: "s \<noteq> []" using c by (rule endsWith_nonempty)
  have "trim s = dropWhile js_space s" using c by (rule trim_canonical)
  then have t: "trim s = s" using h by (simp add: dropWhile_noop)
  show "formatJid (Some s) = Inr s"
    using ne c by (intro formatJid_canonical_fixed t)
next
  assume "s \<noteq> [] \<and> \<not> endsWith (trim s) user_suffix \<and> \<not> endsWith (trim s) group_suffix"
  then show "formatJid (Some s) = Inr (filter digit s @ user_suffix)"
    by (simp add: formatJid_def filter_digit_trim)
next
  assume "formatJid x = Inr y"
  then show "formatJid (Some y) = Inr y" by (rule formatJid_idem)
qed

text \<open>
  The theorem at the addresses of the specification and at one more: a group address
  followed by a blank, a canonical address, the phone number \<open>0812-345-6789\<close>, and the
  result of normalizing that number.
\<close>

theorem formatJid_canonical_form_witness:
  "endsWith (trim ''628123@g.us '') group_suffix
   \<and> formatJid (Some ''628123@g.us '') = Inr ''628123@g.us''
   \<and> endsWith ''628123@s.whatsapp.net'' user_suffix
   \<and> \<not> js_space (hd ''628123@s.whatsapp.net'')
   \<and> formatJid (Some ''628123@s.whatsapp.net'') = Inr ''628123@s.whatsapp.net''
   \<and> formatJid (Some ''0812-345-6789'') = Inr ''08123456789@s.whatsapp.net''
   \<and> formatJid (Some ''08123456789@s.whatsapp.net'') = Inr ''08123456789@s.whatsapp.net''"
proof -
  have t: "trim ''628123@g.us '' = ''628123@g.us''"
    by (simp add: trim_def js_space_def)
  have g: "endsWith (trim ''628123@g.us '') group_suffix"
    by (simp add: t endsWith_def group_suffix_def)
  have a: "endsWith ''628123@s.whatsapp.net'' user_suffix"
    by (simp add: endsWith_def user_suffix_def)
  have b: "\<not> js_space (hd ''628123@s.whatsapp.net'')"
    by (simp add: js_space_def)
  have c: "''0812-345-6789'' \<noteq> [] \<and> \<not> endsWith (trim ''0812-345-6789'') user_suffix
      \<and> \<not> endsWith (trim ''0812-345-6789'') group_suffix"
    by (simp add: endsWith_def user_suffix_def group_suffix_def trim_def js_space_def)
  have d: "filter digit ''0812-345-6789'' @ user_suffix = ''08123456789@s.whatsapp.net''"
    by (simp add: digit_def user_suffix_def)
  have e: "formatJid (Some ''0812-345-6789'') = Inr ''08123456789@s.whatsapp.net''"
    using formatJid_canonical_form [of "''0812-345-6789''"] c d by simp
  have f: "formatJid (Some ''628123@g.us '') = Inr ''628123@g.us''"
    using formatJid_canonical_form [of "''628123@g.us ''"] g t by simp
  show ?thesis
    using a b e f g
      formatJid_canonical_form [of "''628123@s.whatsapp.net''"]
      formatJid_canonical_form [of _ "Some ''0812-345-6789''" "''08123456789@s.whatsapp.net''"]
    by simp
qed

text \<open>
  Claim C9 as stated does not hold for every input that ends in the canonical suffix:
  \<^verbatim>\<open>String(numberOrJid).trim()\<close> removes a leading blank before the suffix test, so
  the address comes back changed.
\<close>

theorem formatJid_unchanged_counterexample:
  "endsWith '' 628123@s.whatsapp.net'' user_suffix
   \<and> formatJid (Some '' 628123@s.whatsapp.net'') = Inr ''628123@s.whatsapp.net''
   \<and> formatJid (Some '' 628123@s.whatsapp.net'') \<noteq> Inr '' 628123@s.whatsapp.net''"
  by (simp add: formatJid_def endsWith_def user_suffix_def group_suffix_def trim_def js_space_def)

section \<open>Properties of the supervisor and the gateway\<close>

subsection \<open>Projections of the store operations\<close>

lemma updateStatus_fields [simp]:
  "SESSIONS (updateStatus i st s) = SESSIONS s"
  "messages (updateStatus i st s) = messages s"
  "timers (updateStatus i st s) = timers s"
  "emitted (updateStatus i st s) = emitted s"
  "calls (updateStatus i st s) = calls s"
  "credentials (updateStatus i st s) = credentials s"
  "sockets (updateStatus i st s) = sockets s"
  "user (updateStatus i st s) = user s"
  "next_id (updateStatus i st s) = next_id s"
  by (simp_all add: updateStatus_def split: option.splits)

lemma updateStatus_sessions:
  "sessions (updateStatus i st s) =
     (case sessions s i of None \<Rightarrow> sessions s | Some r \<Rightarrow> (sessions s)(i \<mapsto> r\<lparr>status := st\<rparr>))"
  by (simp add: updateStatus_def split: option.splits)

lemma updateStatus_dom [simp]: "dom (sessions (updateStatus i st s)) = dom (sessions s)"
  by (auto simp: updateStatus_sessions split: option.splits)

lemma updateStatus_row:
  "sessions s i = Some r \<Longrightarrow> sessions (updateStatus i st s) i = Some (r\<lparr>status := st\<rparr>)"
  by (simp add: updateStatus_sessions)

lemma emit_fields [simp]:
  "SESSIONS (emit d n v s) = SESSIONS s"
  "sessions (emit d n v s) = sessions s"
  "messages (emit d n v s) = messages s"
  "timers (emit d n v s) = timers s"
  "emitted (emit d n v s) = emitted s @ [(d, n, v)]"
  "calls (emit d n v s) = calls s"
  "credentials (emit d n v s) = credentials s"
  "sockets (emit d n v s) = sockets s"
  "user (emit d n v s) = user s"
  "next_id (emit d n v s) = next_id s"
  by (simp_all add: emit_def)

lemma session_event_fields [simp]:
  "SESSIONS (session_event i st s) = SESSIONS s"
  "sessions (session_event i st s) = sessions s"
  "messages (session_event i st s) = messages s"
  "timers (session_event i st s) = timers s"
  "calls (session_event i st s) = calls s"
  "credentials (session_event i st s) = credentials s"
  "sockets (session_event i st s) = sockets s"
  "user (session_event i st s) = user s"
  "next_id (session_event i st s) = next_id s"
  by (simp_all add: session_event_def)

lemma started_main:
  "startBaileysSession v None ''main'' cl initial =
     (Returned 0,
      initial\<lparr>sessions := [''main'' \<mapsto> \<lparr>phone_number = None, status = Loading\<rparr>],
        sockets := [\<lparr>ws_session = ''main'', ws_auth = None, ws_version = fallback_version v,
                     ws_client = cl\<rparr>],
        SESSIONS := [''main'' \<mapsto> \<lparr>sock = 0, lastQr = None, createdAt = 0\<rparr>]\<rparr>)"
  by (simp add: startBaileysSession_def start_step_def Let_def initial_def upsert_def
      useAuthState_def)

subsection \<open>Sending without a live session\<close>

text \<open>
  Claim C2. When the registry has no entry for the session the command names (after the
  default \<open>main\<close> is applied), \<open>send-message\<close> does nothing but answer the caller with
  the error \<open>session not active\<close>: no row is written to \<open>messages\<close> and the protocol is
  not called. This holds in app.js and in server.js.
\<close>

theorem send_without_session_fails:
  "(SESSIONS s (default_app (sm_sessionId p)) = None \<longrightarrow>
      send_message_app sent client p s =
        s\<lparr>emitted := emitted s @ [(Client client, ''error-message'', Str ''session not active'')]\<rparr>
      \<and> messages (send_message_app sent client p s) = messages s
      \<and> calls (send_message_app sent client p s) = calls s)
   \<and> (SESSIONS s (default_server (sm_sessionId p)) = None \<longrightarrow>
      send_message_server sent client p s =
        s\<lparr>emitted := emitted s @ [(Client client, ''error'', Str ''session not active'')]\<rparr>
      \<and> messages (send_message_server sent client p s) = messages s
      \<and> calls (send_message_server sent client p s) = calls s)"
  by (simp add: send_message_app_def send_message_server_def emit_def)

text \<open>The theorem on the empty registry, for a command without and with a session id.\<close>

theorem send_without_session_fails_witness:
  "SESSIONS initial (default_app (sm_sessionId \<lparr>sm_sessionId = None, sm_to = Some ''628123'', sm_message = Some ''hi''\<rparr>)) = None
   \<and> SESSIONS initial (default_server (sm_sessionId \<lparr>sm_sessionId = Some ''main'', sm_to = Some ''628123'', sm_message = Some ''hi''\<rparr>)) = None
   \<and> emitted (send_message_app None 7 \<lparr>sm_sessionId = None, sm_to = Some ''628123'', sm_message = Some ''hi''\<rparr> initial)
       = [(Client 7, ''error-message'', Str ''session not active'')]
   \<and> messages (send_message_app None 7 \<lparr>sm_sessionId = None, sm_to = Some ''628123'', sm_message = Some ''hi''\<rparr> initial) = []
   \<and> emitted (send_message_server None 7 \<lparr>sm_sessionId = Some ''main'', sm_to = Some ''628123'', sm_message = Some ''hi''\<rparr> initial)
       = [(Client 7, ''error'', Str ''session not active'')]
   \<and> messages (send_message_server None 7 \<lparr>sm_sessionId = Some ''main'', sm_to = Some ''628123'', sm_message = Some ''hi''\<rparr> initial) = []"
  using send_without_session_fails [of initial "\<lparr>sm_sessionId = None, sm_to = Some ''628123'', sm_message = Some ''hi''\<rparr>" None 7]
    send_without_session_fails [of initial "\<lparr>sm_sessionId = Some ''main'', sm_to = Some ''628123'', sm_message = Some ''hi''\<rparr>" None 7]
  by (simp add: initial_def default_app_def default_server_def truthy_def str_def)

subsection \<open>Broadcast\<close>









lemma live_main:
  "SESSIONS (snd (startBaileysSession v None ''main'' cl initial)) ''main''
     = Some \<lparr>sock = 0, lastQr = None, createdAt = 0\<rparr>"
  by (simp add: started_main)




subsection \<open>Message history\<close>











subsection \<open>Inbound messages\<close>

lemma store_inbound_app_effect:
  "emitted (store_inbound_app i sk m c s) = emitted s @ [message_event_app i m (extract_text c)]"
  "map (\<lambda>r. (session_id r, direction r, from_who r, msg_text r)) (messages (store_inbound_app i sk m c s))
     = map (\<lambda>r. (session_id r, direction r, from_who r, msg_text r)) (messages s)
       @ [(Some i, if key_fromMe m then Dir_out else Dir_in, Some (key_remoteJid m),
           Some (extract_text c))]"
  by (simp_all add: store_inbound_app_def insert_message_def Let_def)

lemma on_messages_upsert_app_effect:
  "emitted (on_messages_upsert_app i sk msgs s) = emitted s @
     map (\<lambda>m. message_event_app i m (case message m of None \<Rightarrow> [] | Some c \<Rightarrow> extract_text c))
       (filter (\<lambda>m. \<not> skipped m) msgs)
   \<and> map (\<lambda>r. (session_id r, direction r, from_who r, msg_text r))
        (messages (on_messages_upsert_app i sk msgs s))
     = map (\<lambda>r. (session_id r, direction r, from_who r, msg_text r)) (messages s) @
       map (\<lambda>m. (Some i, if key_fromMe m then Dir_out else Dir_in, Some (key_remoteJid m),
                  Some (case message m of None \<Rightarrow> [] | Some c \<Rightarrow> extract_text c)))
         (filter (\<lambda>m. \<not> skipped m) msgs)"
proof (induction msgs arbitrary: s)
  case Nil
  then show ?case by simp
next
  case (Cons m rest)
  show ?case
  proof (cases "skipped m")
    case True
    then have "on_messages_upsert_app i sk (m # rest) s = on_messages_upsert_app i sk rest s"
      by (auto simp: skipped_def split: option.splits)
    then show ?thesis using Cons.IH [of s] True by simp
  next
    case False
    then obtain c where c: "message m = Some c" and j: "key_remoteJid m \<noteq> ''status@broadcast''"
      by (auto simp: skipped_def)
    have "on_messages_upsert_app i sk (m # rest) s =
        on_messages_upsert_app i sk rest (store_inbound_app i sk m c s)"
      using c j by simp
    then show ?thesis
      using Cons.IH [of "store_inbound_app i sk m c s"] False c
      by (simp add: store_inbound_app_effect)
  qed
qed

lemma on_messages_upsert_server_effect:
  "emitted (on_messages_upsert_server i sk msgs s) = emitted s @
     map (\<lambda>m. message_event_server i m (case message m of None \<Rightarrow> [] | Some c \<Rightarrow> extract_text c))
       (filter (\<lambda>m. \<not> skipped m) (take 1 msgs))
   \<and> map (\<lambda>r. (session_id r, direction r, from_who r, msg_text r))
        (messages (on_messages_upsert_server i sk msgs s))
     = map (\<lambda>r. (session_id r, direction r, from_who r, msg_text r)) (messages s) @
       map (\<lambda>m. (Some i, Dir_in, Some (key_remoteJid m),
                  Some (case message m of None \<Rightarrow> [] | Some c \<Rightarrow> extract_text c)))
         (filter (\<lambda>m. \<not> skipped m) (take 1 msgs))"
  by (cases msgs)
    (auto simp: on_messages_upsert_server_def skipped_def insert_message_def Let_def
      split: option.splits)

text \<open>
  Claim C10, as the code has it. A message is skipped when it has no body or comes from
  \<open>status@broadcast\<close>. In app.js every message of an event that is not skipped adds
  one row to \<open>messages\<close> and one \<open>message\<close> event, in the order of the event, and a
  skipped message adds nothing. server.js looks at the first message of an event only:
  it adds the row and the event when that message is not skipped, and nothing else.
\<close>

theorem inbound_messages_persisted:
  "(let s' = on_messages_upsert_app i sk msgs s;
        kept = filter (\<lambda>m. \<not> skipped m) msgs in
      emitted s' = emitted s @
        map (\<lambda>m. message_event_app i m (case message m of None \<Rightarrow> [] | Some c \<Rightarrow> extract_text c))
          kept
    \<and> map (\<lambda>r. (session_id r, direction r, from_who r, msg_text r)) (messages s')
       = map (\<lambda>r. (session_id r, direction r, from_who r, msg_text r)) (messages s) @
         map (\<lambda>m. (Some i, if key_fromMe m then Dir_out else Dir_in, Some (key_remoteJid m),
                    Some (case message m of None \<Rightarrow> [] | Some c \<Rightarrow> extract_text c))) kept)
   \<and> (let s' = on_messages_upsert_server i sk msgs s;
        kept = filter (\<lambda>m. \<not> skipped m) (take 1 msgs) in
      emitted s' = emitted s @
        map (\<lambda>m. message_event_server i m (case message m of None \<Rightarrow> [] | Some c \<Rightarrow> extract_text c))
          kept
    \<and> map (\<lambda>r. (session_id r, direction r, from_who r, msg_text r)) (messages s')
       = map (\<lambda>r. (session_id r, direction r, from_who r, msg_text r)) (messages s) @
         map (\<lambda>m. (Some i, Dir_in, Some (key_remoteJid m),
                    Some (case message m of None \<Rightarrow> [] | Some c \<Rightarrow> extract_text c))) kept)"
  unfolding Let_def
  using on_messages_upsert_app_effect [of i sk msgs s]
    on_messages_upsert_server_effect [of i sk msgs s]
  by blast


text \<open>
  Claim C10 as stated says that every message that is not skipped is persisted and
  broadcast. In server.js the second message of an event is neither, although it has a
  body and an ordinary sender.
\<close>

theorem inbound_second_message_counterexample:
  "\<not> skipped \<lparr>key_remoteJid = ''628222@s.whatsapp.net'', key_fromMe = False,
        message = Some \<lparr>conversation = Some ''two'', extendedTextMessage_text = None,
                         imageMessage = None, documentMessage = False\<rparr>\<rparr>
   \<and> map msg_text (messages (on_messages_upsert_server ''main'' 0
        [\<lparr>key_remoteJid = ''628111@s.whatsapp.net'', key_fromMe = False,
          message = Some \<lparr>conversation = Some ''one'', extendedTextMessage_text = None,
                           imageMessage = None, documentMessage = False\<rparr>\<rparr>,
         \<lparr>key_remoteJid = ''628222@s.whatsapp.net'', key_fromMe = False,
          message = Some \<lparr>conversation = Some ''two'', extendedTextMessage_text = None,
                           imageMessage = None, documentMessage = False\<rparr>\<rparr>]
        initial)) = [Some ''one'']
   \<and> emitted (on_messages_upsert_server ''main'' 0
        [\<lparr>key_remoteJid = ''628111@s.whatsapp.net'', key_fromMe = False,
          message = Some \<lparr>conversation = Some ''one'', extendedTextMessage_text = None,
                           imageMessage = None, documentMessage = False\<rparr>\<rparr>,
         \<lparr>key_remoteJid = ''628222@s.whatsapp.net'', key_fromMe = False,
          message = Some \<lparr>conversation = Some ''two'', extendedTextMessage_text = None,
                           imageMessage = None, documentMessage = False\<rparr>\<rparr>]
        initial)
     = [(Everyone, ''message'',
         Obj [(''id'', Str ''main''), (''from'', Str ''628111@s.whatsapp.net''),
              (''text'', Str ''one'')])]"
  by (simp add: skipped_def on_messages_upsert_server_def insert_message_def Let_def
      extract_text_def truthy_def str_def message_event_server_def initial_def)

subsection \<open>Starting a session\<close>

lemma start_live:
  "SESSIONS s i = Some e \<Longrightarrow> start_step v f i cl (Entry, s) = (Returned (sock e), s)"
  "SESSIONS s i = Some e \<Longrightarrow> startBaileysSession v f i cl s = (Returned (sock e), s)"
  by (simp_all add: startBaileysSession_def start_step_def Let_def)

lemma start_fresh:
  assumes "SESSIONS s i = None"
  shows "startBaileysSession v f i cl s =
     (Returned (length (sockets s)),
      (upsert i None Loading s)
        \<lparr>sockets := sockets s @
           [\<lparr>ws_session = i, ws_auth = credentials s i,
             ws_version = (case f of None \<Rightarrow> fallback_version v | Some n \<Rightarrow> n),
             ws_client = cl\<rparr>],
         SESSIONS := (SESSIONS s)(i \<mapsto> \<lparr>sock = length (sockets s), lastQr = None, createdAt = now s\<rparr>)\<rparr>)"
  using assms
  by (simp add: startBaileysSession_def start_step_def Let_def upsert_def useAuthState_def)

text \<open>
  Claim C1, as the code has it. A start for a session that has a registry entry returns
  the entry's socket and changes nothing, already in its first step, before any
  suspension. A start for a session without an entry that runs to its end makes one
  socket and registers it, and every start after that returns this socket and changes
  nothing. The registry is a map, so it holds one entry per session id at most.
\<close>

theorem start_is_idempotent:
  "(SESSIONS s i = Some e \<longrightarrow>
      start_step v f i cl (Entry, s) = (Returned (sock e), s)
    \<and> startBaileysSession v f i cl s = (Returned (sock e), s))
   \<and> (SESSIONS s i = None \<longrightarrow>
      (let s' = snd (startBaileysSession v f i cl s) in
         fst (startBaileysSession v f i cl s) = Returned (length (sockets s))
       \<and> length (sockets s') = Suc (length (sockets s))
       \<and> map_option sock (SESSIONS s' i) = Some (length (sockets s))
       \<and> startBaileysSession v f' i cl' s' = (Returned (length (sockets s)), s')))"
proof (intro conjI impI)
  assume "SESSIONS s i = Some e"
  then show "start_step v f i cl (Entry, s) = (Returned (sock e), s)"
    and "startBaileysSession v f i cl s = (Returned (sock e), s)"
    by (simp_all add: start_live)
next
  assume fresh: "SESSIONS s i = None"
  define s' where "s' = snd (startBaileysSession v f i cl s)"
  have a: "fst (startBaileysSession v f i cl s) = Returned (length (sockets s))"
    and b: "length (sockets s') = Suc (length (sockets s))"
    and c: "SESSIONS s' i = Some \<lparr>sock = length (sockets s), lastQr = None, createdAt = now s\<rparr>"
    by (simp_all add: s'_def start_fresh [OF fresh] upsert_def)
  have d: "startBaileysSession v f' i cl' s' = (Returned (length (sockets s)), s')"
    using start_live(2) [OF c] by simp
  show "let s' = snd (startBaileysSession v f i cl s) in
         fst (startBaileysSession v f i cl s) = Returned (length (sockets s))
       \<and> length (sockets s') = Suc (length (sockets s))
       \<and> map_option sock (SESSIONS s' i) = Some (length (sockets s))
       \<and> startBaileysSession v f' i cl' s' = (Returned (length (sockets s)), s')"
    using a b c d unfolding s'_def Let_def by simp
qed

text \<open>
  The theorem on the session \<open>main\<close>: started on the empty registry it gets socket 0,
  and a second start, after the first has returned, gets socket 0 again.
\<close>

theorem start_is_idempotent_witness:
  "SESSIONS initial ''main'' = None
   \<and> fst (startBaileysSession App_js None ''main'' None initial) = Returned 0
   \<and> length (sockets (snd (startBaileysSession App_js None ''main'' None initial))) = 1
   \<and> SESSIONS (snd (startBaileysSession App_js None ''main'' None initial)) ''main''
       = Some \<lparr>sock = 0, lastQr = None, createdAt = 0\<rparr>
   \<and> startBaileysSession App_js None ''main'' (Some 7)
        (snd (startBaileysSession App_js None ''main'' None initial))
       = (Returned 0, snd (startBaileysSession App_js None ''main'' None initial))
   \<and> start_step App_js None ''main'' (Some 7)
        (Entry, snd (startBaileysSession App_js None ''main'' None initial))
       = (Returned 0, snd (startBaileysSession App_js None ''main'' None initial))"
proof -
  let ?s = "snd (startBaileysSession App_js None ''main'' None initial)"
  have h0: "SESSIONS initial ''main'' = None" "length (sockets initial) = 0"
    by (simp_all add: initial_def)
  have h1: "SESSIONS ?s ''main'' = Some \<lparr>sock = 0, lastQr = None, createdAt = 0\<rparr>"
    by (rule live_main)
  show ?thesis
    using start_is_idempotent [of initial "''main''" _ App_js None None None "Some 7"]
      start_is_idempotent [of ?s "''main''" "\<lparr>sock = 0, lastQr = None, createdAt = 0\<rparr>"
        App_js None "Some 7"]
      h0 h1
    by (simp add: Let_def)
qed

text \<open>
  Claim C1 as stated says that a second start issued while the first is mid-start finds
  a partly initialized entry and returns. The entry is written in the last step only,
  after three suspensions. Here two starts for \<open>main\<close> interleave: after the first
  step of each, both are past the registry test; at the end each has made a socket of
  its own, and the registry holds the second.
\<close>

theorem concurrent_start_counterexample:
  "map t_pc (fst (run App_js None [0, 1]
      ([\<lparr>t_session = ''main'', t_client = None, t_pc = Entry\<rparr>,
        \<lparr>t_session = ''main'', t_client = None, t_pc = Entry\<rparr>], initial)))
     = [Await_upsert, Await_upsert]
   \<and> map t_pc (fst (run App_js None [0, 1, 0, 0, 0, 1, 1, 1]
      ([\<lparr>t_session = ''main'', t_client = None, t_pc = Entry\<rparr>,
        \<lparr>t_session = ''main'', t_client = None, t_pc = Entry\<rparr>], initial)))
     = [Returned 0, Returned 1]
   \<and> map ws_session (sockets (snd (run App_js None [0, 1, 0, 0, 0, 1, 1, 1]
      ([\<lparr>t_session = ''main'', t_client = None, t_pc = Entry\<rparr>,
        \<lparr>t_session = ''main'', t_client = None, t_pc = Entry\<rparr>], initial))))
     = [''main'', ''main'']
   \<and> map_option sock (SESSIONS (snd (run App_js None [0, 1, 0, 0, 0, 1, 1, 1]
      ([\<lparr>t_session = ''main'', t_client = None, t_pc = Entry\<rparr>,
        \<lparr>t_session = ''main'', t_client = None, t_pc = Entry\<rparr>], initial))) ''main'')
     = Some 1"
  by (simp add: start_step_def initial_def upsert_def useAuthState_def Let_def)


subsection \<open>Reconnection after a disconnect\<close>

text \<open>
  The close handler leaves the registry entry in place unless the code is
  \<open>loggedOut\<close>. The timer's callback is \<^verbatim>\<open>startBaileysSession\<close>, whose first line
  returns the socket of that entry: firing the timer changes nothing but the timer
  list.
\<close>

lemma stale_entry_blocks_restart:
  assumes "SESSIONS s i = Some e" and "connection upd = Some Close"
    and "statusCode upd \<noteq> Some loggedOut" and "timers s = []"
  shows "timers (close_update_app i upd s) = [\<lparr>delay = 3000, restart = i, restart_client = None\<rparr>]"
    and "fire_timer v f (close_update_app i upd s) = (close_update_app i upd s)\<lparr>timers := []\<rparr>"
    and "map_option status (sessions (close_update_app i upd s) i)
           = map_option (\<lambda>r. Disconnected) (sessions s i)"
proof -
  let ?d = "close_update_app i upd s"
  show t: "timers ?d = [\<lparr>delay = 3000, restart = i, restart_client = None\<rparr>]"
    using assms by (simp add: close_update_app_def Let_def)
  have live: "SESSIONS (?d\<lparr>timers := []\<rparr>) i = Some e"
    using assms by (simp add: close_update_app_def Let_def)
  show "fire_timer v f ?d = ?d\<lparr>timers := []\<rparr>"
    using start_live(2) [OF live] by (simp add: fire_timer_def t)
  show "map_option status (sessions ?d i) = map_option (\<lambda>r. Disconnected) (sessions s i)"
    using assms
    by (simp add: close_update_app_def Let_def updateStatus_sessions split: option.splits)
qed

text \<open>
  Claim C4 at a concrete input: the session \<open>main\<close> is started, its socket closes with
  status code 428 (connection closed), and the timer fires. The row is marked
  \<open>disconnected\<close> and one timer of 3000 ms is set, as the claim says. After the timer
  has fired the row is still \<open>disconnected\<close>, there is no new socket, no event and no
  further timer: the session does not go back to \<open>loading\<close>, and nothing retries.
\<close>

theorem reconnect_timer_restarts_nothing:
  "(let live = snd (startBaileysSession App_js None ''main'' None initial);
        down = on_connection_update_app Inr ''main'' 0 None
                 \<lparr>connection = Some Close, statusCode = Some 428, qr = None\<rparr> live;
        after = fire_timer App_js None down in
      timers down = [\<lparr>delay = 3000, restart = ''main'', restart_client = None\<rparr>]
    \<and> map_option status (sessions down ''main'') = Some Disconnected
    \<and> timers after = []
    \<and> map_option status (sessions after ''main'') = Some Disconnected
    \<and> sockets after = sockets live
    \<and> SESSIONS after = SESSIONS live
    \<and> emitted after = emitted down)"
proof -
  let ?live = "snd (startBaileysSession App_js None ''main'' None initial)"
  let ?u = "\<lparr>connection = Some Close, statusCode = Some 428, qr = None\<rparr>"
  have d: "on_connection_update_app Inr ''main'' 0 None ?u ?live = close_update_app ''main'' ?u ?live"
    by (simp add: on_connection_update_app_def qr_update_app_def open_update_app_def truthy_def)
  have l: "SESSIONS ?live ''main'' = Some \<lparr>sock = 0, lastQr = None, createdAt = 0\<rparr>"
    by (rule live_main)
  have u: "connection ?u = Some Close" "statusCode ?u \<noteq> Some loggedOut"
    by (simp_all add: loggedOut_def)
  have t: "timers ?live = []" "sessions ?live ''main'' = Some \<lparr>phone_number = None, status = Loading\<rparr>"
    by (simp_all add: started_main) (simp add: initial_def)
  note r = stale_entry_blocks_restart [OF l u t(1)]
  have s: "SESSIONS (close_update_app ''main'' ?u ?live) = SESSIONS ?live"
    "sockets (close_update_app ''main'' ?u ?live) = sockets ?live"
    using u by (simp_all add: close_update_app_def Let_def)
  show ?thesis
    unfolding Let_def d using r t(2) s by simp
qed

subsection \<open>Validation of the send command\<close>

text \<open>
  Claim C8 at a concrete input: a \<open>send-message\<close> command for the live session \<open>main\<close>
  with a recipient and no \<open>message\<close> field. Neither socket handler tests the field:
  the protocol is called with an undefined text and, when the call resolves, a row is
  written and success is reported. The REST route of server.js, given the same fields,
  answers 400 and does nothing else.
\<close>

theorem send_without_message_reaches_protocol:
  "(let live = snd (startBaileysSession App_js None ''main'' None initial);
        p = \<lparr>sm_sessionId = None, sm_to = Some ''628123'', sm_message = None\<rparr> in
      calls (send_message_app None 7 p live) = [SendMessage 0 ''628123@s.whatsapp.net'' None]
    \<and> map msg_text (messages (send_message_app None 7 p live)) = [None]
    \<and> emitted (send_message_app None 7 p live)
        = [(Client 7, ''success-message'', Str ''Message sent'')]
    \<and> calls (send_message_server None 7 p live) = [SendMessage 0 ''628123@s.whatsapp.net'' None]
    \<and> map msg_text (messages (send_message_server None 7 p live)) = [None]
    \<and> api_send None p live = ((400, Obj [(''error'', Str ''to and message required'')]), live))"
proof -
  have j: "formatJid (Some ''628123'') = Inr ''628123@s.whatsapp.net''"
    by (simp add: formatJid_def trim_def js_space_def endsWith_def user_suffix_def
        group_suffix_def digit_def)
  have d: "default_app None = ''main''" "default_server None = ''main''"
    by (simp_all add: default_app_def default_server_def truthy_def)
  have e: "emitted (snd (startBaileysSession App_js None ''main'' None initial)) = []"
    "calls (snd (startBaileysSession App_js None ''main'' None initial)) = []"
    "messages (snd (startBaileysSession App_js None ''main'' None initial)) = []"
    by (simp_all add: started_main) (simp_all add: initial_def)
  show ?thesis
    by (simp add: Let_def send_message_app_def send_message_server_def api_send_def d j e
        live_main insert_message_def emit_def truthy_def)
qed

subsection \<open>Disconnects with the logged-out code\<close>

lemma qr_update_app_keeps:
  "dom (sessions (qr_update_app toDataURL i cl upd s)) = dom (sessions s)"
  "timers (qr_update_app toDataURL i cl upd s) = timers s"
  "calls (qr_update_app toDataURL i cl upd s) = calls s"
  "messages (qr_update_app toDataURL i cl upd s) = messages s"
  by (auto simp: qr_update_app_def Let_def split: sum.splits option.splits looked_up.splits)

lemma open_update_app_closed:
  "connection upd \<noteq> Some Open \<Longrightarrow> open_update_app i sk upd s = s"
  by (simp add: open_update_app_def)

lemma open_update_server_closed:
  "connection upd \<noteq> Some Open \<Longrightarrow> open_update_server i sk upd s = s"
  by (simp add: open_update_server_def)

lemma qr_update_server_none:
  "\<not> truthy (qr upd) \<Longrightarrow> qr_update_server toDataURL i cl upd s = Inr s"
  by (simp add: qr_update_server_def)

lemma dom_row: "dom m = dom m' \<Longrightarrow> m i = Some r \<Longrightarrow> \<exists>r'. m' i = Some r'"
  by (metis domD domI)

text \<open>
  For every session id but \<open>__proto__\<close> the handler does what it is written for. Let the
  session have a row, and let its socket report \<open>connection = close\<close> with the code
  \<open>DisconnectReason.loggedOut\<close>. After the handler the row is still there with status
  \<open>logged_out\<close>, no row was deleted, the registry has no entry for the session, no timer
  was added, and a \<open>send-message\<close> for the session adds one event, \<open>session not active\<close>
  to the caller, and neither a row nor a protocol call.
\<close>

lemma logged_out_disconnect_removes_entry:
  assumes "sessions s sessionId = Some r"
    and "connection upd = Some Close"
    and "statusCode upd = Some loggedOut"
    and "sessionId \<noteq> ''__proto__''"
  shows "(let s' = on_connection_update_app toDataURL sessionId sk socketClient upd s;
              t = send_message_app sent client
                    \<lparr>sm_sessionId = Some sessionId, sm_to = to, sm_message = msg\<rparr> s' in
            map_option status (sessions s' sessionId) = Some Logged_out
          \<and> dom (sessions s') = dom (sessions s)
          \<and> SESSIONS s' sessionId = None
          \<and> timers s' = timers s
          \<and> emitted t = emitted s' @ [(Client client, ''error-message'', Str ''session not active'')]
          \<and> messages t = messages s
          \<and> calls t = calls s)"
proof -
  define q where "q = qr_update_app toDataURL sessionId socketClient upd s"
  define s' where "s' = on_connection_update_app toDataURL sessionId sk socketClient upd s"
  define t where "t = send_message_app sent client
                    \<lparr>sm_sessionId = Some sessionId, sm_to = to, sm_message = msg\<rparr> s'"
  have q_dom: "dom (sessions q) = dom (sessions s)" and q_timers: "timers q = timers s"
    and q_calls: "calls q = calls s" and q_messages: "messages q = messages s"
    by (simp_all add: q_def qr_update_app_keeps)
  from dom_row [OF q_dom [symmetric] assms(1)]
  obtain r' where r': "sessions q sessionId = Some r'" by blast
  have s': "s' = emit Everyone ''log'' (Str (''['' @ sessionId @ ''] logged_out''))
      ((session_event sessionId Logged_out (updateStatus sessionId Logged_out q))
         \<lparr>SESSIONS := (SESSIONS q)(sessionId := None)\<rparr>)"
    using assms(2,3,4)
    by (simp add: s'_def on_connection_update_app_def q_def [symmetric] open_update_app_closed
        close_update_app_def registry_delete_def Let_def)
  have a: "map_option status (sessions s' sessionId) = Some Logged_out"
    by (simp add: s' updateStatus_row [OF r'])
  have b: "dom (sessions s') = dom (sessions s)" by (simp add: s' q_dom)
  have c: "SESSIONS s' sessionId = None" by (simp add: s')
  have d: "timers s' = timers s" by (simp add: s' q_timers)
  have m: "messages s' = messages s" "calls s' = calls s"
    by (simp_all add: s' q_messages q_calls)
  have e: "t = emit (Client client) ''error-message'' (Str ''session not active'') s'"
    using c by (simp add: t_def send_message_app_def default_app_def)
  have f: "emitted t = emitted s' @ [(Client client, ''error-message'', Str ''session not active'')]"
    "messages t = messages s" "calls t = calls s"
    by (simp_all add: e m)
  show ?thesis
    using a b c d f unfolding s'_def t_def Let_def by blast
qed

lemma start_proto:
  "startBaileysSession v None ''__proto__'' None initial =
     (Returned 0,
      initial\<lparr>sessions := [''__proto__'' \<mapsto> \<lparr>phone_number = None, status = Loading\<rparr>],
        sockets := [\<lparr>ws_session = ''__proto__'', ws_auth = None, ws_version = fallback_version v,
                     ws_client = None\<rparr>],
        SESSIONS := [''__proto__'' \<mapsto> \<lparr>sock = 0, lastQr = None, createdAt = 0\<rparr>]\<rparr>)"
  by (simp add: startBaileysSession_def start_step_def Let_def initial_def upsert_def
      useAuthState_def)

lemma formatJid_628123: "formatJid (Some ''628123'') = Inr ''628123@s.whatsapp.net''"
  by (simp add: formatJid_def trim_def js_space_def endsWith_def user_suffix_def
      group_suffix_def digit_def)

text \<open>
  Claim C5 at a concrete input: the session \<open>__proto__\<close> is started, and its socket
  closes with the code \<open>DisconnectReason.loggedOut\<close>. The row is marked \<open>logged_out\<close>
  and no timer is set, as the claim says. But \<^verbatim>\<open>delete SESSIONS[sessionId]\<close> removes
  nothing for this key: the entry is still read from the registry, and a
  \<open>send-message\<close> for the session is passed to the closed socket, stored and reported
  as sent. Both files behave so.
\<close>

theorem logged_out_proto_session_still_sends:
  "(let live = snd (startBaileysSession App_js None ''__proto__'' None initial);
        s' = on_connection_update_app Inr ''__proto__'' 0 None
               \<lparr>connection = Some Close, statusCode = Some 401, qr = None\<rparr> live;
        t = send_message_app None 7
              \<lparr>sm_sessionId = Some ''__proto__'', sm_to = Some ''628123'',
                sm_message = Some ''hi''\<rparr> s' in
      map_option status (sessions s' ''__proto__'') = Some Logged_out
    \<and> timers s' = []
    \<and> SESSIONS s' ''__proto__'' = Some \<lparr>sock = 0, lastQr = None, createdAt = 0\<rparr>
    \<and> calls t = [SendMessage 0 ''628123@s.whatsapp.net'' (Some ''hi'')]
    \<and> map msg_text (messages t) = [Some ''hi'']
    \<and> emitted t = emitted s' @ [(Client 7, ''success-message'', Str ''Message sent'')])
   \<and> (\<exists>s'. on_connection_update_server Inr ''__proto__'' 0 None
               \<lparr>connection = Some Close, statusCode = Some 401, qr = None\<rparr>
               (snd (startBaileysSession Server_js None ''__proto__'' None initial)) = Inr s'
    \<and> map_option status (sessions s' ''__proto__'') = Some Logged_out
    \<and> timers s' = []
    \<and> SESSIONS s' ''__proto__'' = Some \<lparr>sock = 0, lastQr = None, createdAt = 0\<rparr>
    \<and> calls (send_message_server None 7
              \<lparr>sm_sessionId = Some ''__proto__'', sm_to = Some ''628123'',
                sm_message = Some ''hi''\<rparr> s')
        = [SendMessage 0 ''628123@s.whatsapp.net'' (Some ''hi'')]
    \<and> map msg_text (messages (send_message_server None 7
              \<lparr>sm_sessionId = Some ''__proto__'', sm_to = Some ''628123'',
                sm_message = Some ''hi''\<rparr> s')) = [Some ''hi''])"
proof -
  let ?u = "\<lparr>connection = Some Close, statusCode = Some 401, qr = None\<rparr>"
  let ?a = "snd (startBaileysSession App_js None ''__proto__'' None initial)"
  let ?b = "snd (startBaileysSession Server_js None ''__proto__'' None initial)"
  define a' where "a' = on_connection_update_app Inr ''__proto__'' 0 None ?u ?a"
  define b' where "b' = close_update_server ''__proto__'' None ?u ?b"
  have b: "on_connection_update_server Inr ''__proto__'' 0 None ?u ?b = Inr b'"
    by (simp add: on_connection_update_server_def qr_update_server_def truthy_def
        open_update_server_def b'_def)
  have st: "snd (startBaileysSession v None ''__proto__'' None initial) =
      initial\<lparr>sessions := [''__proto__'' \<mapsto> \<lparr>phone_number = None, status = Loading\<rparr>],
        sockets := [\<lparr>ws_session = ''__proto__'', ws_auth = None, ws_version = fallback_version v,
                     ws_client = None\<rparr>],
        SESSIONS := [''__proto__'' \<mapsto> \<lparr>sock = 0, lastQr = None, createdAt = 0\<rparr>]\<rparr>" for v
    by (simp add: start_proto)
  have a1: "map_option status (sessions a' ''__proto__'') = Some Logged_out"
    "timers a' = []"
    "SESSIONS a' ''__proto__'' = Some \<lparr>sock = 0, lastQr = None, createdAt = 0\<rparr>"
    "calls a' = []" "messages a' = []" "user a' = Map.empty"
    unfolding a'_def st
    by (simp_all add: on_connection_update_app_def qr_update_app_def
        truthy_def open_update_app_def close_update_app_def loggedOut_def Let_def
        registry_delete_def updateStatus_sessions initial_def)
  have b1: "map_option status (sessions b' ''__proto__'') = Some Logged_out"
    "timers b' = []"
    "SESSIONS b' ''__proto__'' = Some \<lparr>sock = 0, lastQr = None, createdAt = 0\<rparr>"
    "calls b' = []" "messages b' = []" "user b' = Map.empty"
    unfolding b'_def st
    by (simp_all add: close_update_server_def loggedOut_def Let_def
        registry_delete_def updateStatus_sessions initial_def)
  have d: "default_app (Some ''__proto__'') = ''__proto__''"
    "default_server (Some ''__proto__'') = ''__proto__''"
    by (simp_all add: default_app_def default_server_def truthy_def str_def)
  have a2: "calls (send_message_app None 7
              \<lparr>sm_sessionId = Some ''__proto__'', sm_to = Some ''628123'',
                sm_message = Some ''hi''\<rparr> a') = [SendMessage 0 ''628123@s.whatsapp.net'' (Some ''hi'')]"
    "map msg_text (messages (send_message_app None 7
              \<lparr>sm_sessionId = Some ''__proto__'', sm_to = Some ''628123'',
                sm_message = Some ''hi''\<rparr> a')) = [Some ''hi'']"
    "emitted (send_message_app None 7
              \<lparr>sm_sessionId = Some ''__proto__'', sm_to = Some ''628123'',
                sm_message = Some ''hi''\<rparr> a')
       = emitted a' @ [(Client 7, ''success-message'', Str ''Message sent'')]"
    by (simp_all add: send_message_app_def d a1 formatJid_628123 insert_message_def emit_def)
  have b2: "calls (send_message_server None 7
              \<lparr>sm_sessionId = Some ''__proto__'', sm_to = Some ''628123'',
                sm_message = Some ''hi''\<rparr> b') = [SendMessage 0 ''628123@s.whatsapp.net'' (Some ''hi'')]"
    "map msg_text (messages (send_message_server None 7
              \<lparr>sm_sessionId = Some ''__proto__'', sm_to = Some ''628123'',
                sm_message = Some ''hi''\<rparr> b')) = [Some ''hi'']"
    by (simp_all add: send_message_server_def d b1 formatJid_628123 insert_message_def emit_def
        Let_def)
  show ?thesis
    unfolding Let_def b a'_def [symmetric] using a1 a2 b1 b2 by simp
qed


subsection \<open>Explicit logout\<close>

text \<open>
  Claim C6, as the code has it. The logout command calls \<^verbatim>\<open>sock.logout\<close> exactly when
  the registry has an entry for the session, and the outcome of that call changes
  nothing; the entry is then removed, for every session id but \<open>__proto__\<close>; the status
  of the session's row, if it has one, becomes \<open>logged_out\<close> whether or not a
  connection was live, and no row is deleted. The command has no purge option: the
  handlers read \<open>sessionId\<close> only, so a payload that asks for the purge and one that
  does not have the same effect, and server.js never touches the credentials.
\<close>

theorem logout_command:
  "(let i = default_app (lo_sessionId p);
        s' = logout_session_app loggedout cleared client p s in
      (i \<noteq> ''__proto__'' \<longrightarrow> SESSIONS s' i = None)
    \<and> (\<exists>rest. calls s' = calls s
           @ (case SESSIONS s i of None \<Rightarrow> [] | Some e \<Rightarrow> [Logout (sock e)]) @ rest)
    \<and> map_option status (sessions s' i) = map_option (\<lambda>r. Logged_out) (sessions s i)
    \<and> dom (sessions s') = dom (sessions s)
    \<and> s' = logout_session_app None cleared client p s
    \<and> s' = logout_session_app loggedout cleared client (p\<lparr>lo_purgeCredentials := x\<rparr>) s)
   \<and> (let i = default_server (lo_sessionId p);
        s' = logout_server loggedout client p s in
      (i \<noteq> ''__proto__'' \<longrightarrow> SESSIONS s' i = None)
    \<and> calls s' = calls s @ (case SESSIONS s i of None \<Rightarrow> [] | Some e \<Rightarrow> [Logout (sock e)])
    \<and> map_option status (sessions s' i) = map_option (\<lambda>r. Logged_out) (sessions s i)
    \<and> dom (sessions s') = dom (sessions s)
    \<and> s' = logout_server None client p s
    \<and> s' = logout_server loggedout client (p\<lparr>lo_purgeCredentials := x\<rparr>) s
    \<and> credentials s' = credentials s)"
proof -
  let ?i = "default_app (lo_sessionId p)"
  let ?a = "logout_session_app loggedout cleared client p s"
  let ?j = "default_server (lo_sessionId p)"
  let ?b = "logout_server loggedout client p s"
  have a1: "?i \<noteq> ''__proto__'' \<longrightarrow> SESSIONS ?a ?i = None"
    by (auto simp: logout_session_app_def Let_def registry_delete_def clearSession_def
        split: option.splits)
  have a2: "calls ?a = calls s
      @ (case SESSIONS s ?i of None \<Rightarrow> [] | Some e \<Rightarrow> [Logout (sock e)]) @ [ClearSession ?i]"
    by (auto simp: logout_session_app_def Let_def clearSession_def split: option.splits)
  have a3: "map_option status (sessions ?a ?i) = map_option (\<lambda>r. Logged_out) (sessions s ?i)"
    "dom (sessions ?a) = dom (sessions s)"
    by (auto simp: logout_session_app_def Let_def clearSession_def updateStatus_sessions
        updateStatus_def split: option.splits)
  have a4: "?a = logout_session_app None cleared client p s"
    "?a = logout_session_app loggedout cleared client (p\<lparr>lo_purgeCredentials := x\<rparr>) s"
    by (simp_all add: logout_session_app_def)
  have b1: "?j \<noteq> ''__proto__'' \<longrightarrow> SESSIONS ?b ?j = None"
    by (auto simp: logout_server_def Let_def registry_delete_def split: option.splits)
  have b2: "calls ?b = calls s
      @ (case SESSIONS s ?j of None \<Rightarrow> [] | Some e \<Rightarrow> [Logout (sock e)])"
    "credentials ?b = credentials s"
    by (auto simp: logout_server_def Let_def split: option.splits)
  have b3: "map_option status (sessions ?b ?j) = map_option (\<lambda>r. Logged_out) (sessions s ?j)"
    "dom (sessions ?b) = dom (sessions s)"
    by (auto simp: logout_server_def Let_def updateStatus_sessions updateStatus_def
        split: option.splits)
  have b4: "?b = logout_server None client p s"
    "?b = logout_server loggedout client (p\<lparr>lo_purgeCredentials := x\<rparr>) s"
    by (simp_all add: logout_server_def)
  from a2 have a2': "\<exists>rest. calls ?a = calls s
      @ (case SESSIONS s ?i of None \<Rightarrow> [] | Some e \<Rightarrow> [Logout (sock e)]) @ rest"
    by blast
  show ?thesis
    unfolding Let_def using a1 a2' a3 a4 b1 b2 b3 b4 by blast
qed

text \<open>
  The theorem on the session \<open>main\<close> right after it was started: the logout removes
  its entry, calls \<^verbatim>\<open>sock.logout\<close> on its socket and marks its row, in both files and
  also when \<^verbatim>\<open>sock.logout\<close> rejects.
\<close>

theorem logout_command_witness:
  "default_app (Some ''main'') \<noteq> ''__proto__''
   \<and> default_server (Some ''main'') \<noteq> ''__proto__''
   \<and> SESSIONS (snd (startBaileysSession App_js None ''main'' None initial)) ''main''
       = Some \<lparr>sock = 0, lastQr = None, createdAt = 0\<rparr>
   \<and> SESSIONS (logout_session_app (Some ''closed'') None 7
        \<lparr>lo_sessionId = Some ''main'', lo_purgeCredentials = None\<rparr>
        (snd (startBaileysSession App_js None ''main'' None initial))) ''main'' = None
   \<and> map_option status (sessions (logout_session_app (Some ''closed'') None 7
        \<lparr>lo_sessionId = Some ''main'', lo_purgeCredentials = None\<rparr>
        (snd (startBaileysSession App_js None ''main'' None initial))) ''main'') = Some Logged_out
   \<and> SESSIONS (logout_server (Some ''closed'') 7
        \<lparr>lo_sessionId = Some ''main'', lo_purgeCredentials = None\<rparr>
        (snd (startBaileysSession Server_js None ''main'' None initial))) ''main'' = None
   \<and> calls (logout_server (Some ''closed'') 7
        \<lparr>lo_sessionId = Some ''main'', lo_purgeCredentials = None\<rparr>
        (snd (startBaileysSession Server_js None ''main'' None initial))) = [Logout 0]
   \<and> map_option status (sessions (logout_server (Some ''closed'') 7
        \<lparr>lo_sessionId = Some ''main'', lo_purgeCredentials = None\<rparr>
        (snd (startBaileysSession Server_js None ''main'' None initial))) ''main'') = Some Logged_out"
proof -
  let ?p = "\<lparr>lo_sessionId = Some ''main'', lo_purgeCredentials = None\<rparr>"
  have d: "default_app (Some ''main'') = ''main''" "default_server (Some ''main'') = ''main''"
    by (simp_all add: default_app_def default_server_def truthy_def str_def)
  have l: "SESSIONS (snd (startBaileysSession v None ''main'' None initial)) ''main''
       = Some \<lparr>sock = 0, lastQr = None, createdAt = 0\<rparr>" for v
    by (rule live_main)
  have r: "sessions (snd (startBaileysSession v None ''main'' None initial)) ''main''
       = Some \<lparr>phone_number = None, status = Loading\<rparr>"
    "calls (snd (startBaileysSession v None ''main'' None initial)) = []" for v
    by (simp_all add: started_main) (simp add: initial_def)
  note A = logout_command [of ?p "Some ''closed''" None 7
        "snd (startBaileysSession App_js None ''main'' None initial)" None]
  note B = logout_command [of ?p "Some ''closed''" None 7
        "snd (startBaileysSession Server_js None ''main'' None initial)" None]
  have a: "SESSIONS (logout_session_app (Some ''closed'') None 7 ?p
        (snd (startBaileysSession App_js None ''main'' None initial))) ''main'' = None"
    "map_option status (sessions (logout_session_app (Some ''closed'') None 7 ?p
        (snd (startBaileysSession App_js None ''main'' None initial))) ''main'') = Some Logged_out"
    using A [unfolded Let_def, THEN conjunct1] by (auto simp: d r)
  have b: "SESSIONS (logout_server (Some ''closed'') 7 ?p
        (snd (startBaileysSession Server_js None ''main'' None initial))) ''main'' = None"
    "calls (logout_server (Some ''closed'') 7 ?p
        (snd (startBaileysSession Server_js None ''main'' None initial))) = [Logout 0]"
    "map_option status (sessions (logout_server (Some ''closed'') 7 ?p
        (snd (startBaileysSession Server_js None ''main'' None initial))) ''main'') = Some Logged_out"
    using B [unfolded Let_def, THEN conjunct2] by (auto simp: d r l)
  show ?thesis using d l a b by simp
qed

text \<open>
  Claim C6 as stated says the credentials are purged on request and only then. In
  server.js a logout that asks for the purge leaves them; in app.js a logout that asks
  not to purge, or says nothing, calls \<^verbatim>\<open>clearSession\<close>. And the claim speaks of
  every session id: for \<open>__proto__\<close> the logout leaves the registry entry where it
  was.
\<close>

theorem logout_purge_counterexample:
  "credentials (initial\<lparr>credentials := [''main'' \<mapsto> ''blob'']\<rparr>) ''main'' = Some ''blob''
   \<and> calls
        (logout_server None 7
           \<lparr>lo_sessionId = Some ''main'', lo_purgeCredentials = Some True\<rparr>
           (initial\<lparr>credentials := [''main'' \<mapsto> ''blob'']\<rparr>)) = []
   \<and> credentials
        (logout_server None 7
           \<lparr>lo_sessionId = Some ''main'', lo_purgeCredentials = Some True\<rparr>
           (initial\<lparr>credentials := [''main'' \<mapsto> ''blob'']\<rparr>)) ''main'' = Some ''blob''
   \<and> calls
        (logout_session_app None None 7
           \<lparr>lo_sessionId = Some ''main'', lo_purgeCredentials = Some False\<rparr>
           (initial\<lparr>credentials := [''main'' \<mapsto> ''blob'']\<rparr>)) = [ClearSession ''main'']
   \<and> credentials
        (logout_session_app None None 7
           \<lparr>lo_sessionId = Some ''main'', lo_purgeCredentials = Some False\<rparr>
           (initial\<lparr>credentials := [''main'' \<mapsto> ''blob'']\<rparr>)) ''main'' = None
   \<and> SESSIONS
        (logout_server None 7
           \<lparr>lo_sessionId = Some ''__proto__'', lo_purgeCredentials = None\<rparr>
           (snd (startBaileysSession Server_js None ''__proto__'' None initial))) ''__proto__''
       = Some \<lparr>sock = 0, lastQr = None, createdAt = 0\<rparr>"
proof -
  have a: "credentials (initial\<lparr>credentials := [''main'' \<mapsto> ''blob'']\<rparr>) ''main'' = Some ''blob''
   \<and> calls
        (logout_server None 7
           \<lparr>lo_sessionId = Some ''main'', lo_purgeCredentials = Some True\<rparr>
           (initial\<lparr>credentials := [''main'' \<mapsto> ''blob'']\<rparr>)) = []
   \<and> credentials
        (logout_server None 7
           \<lparr>lo_sessionId = Some ''main'', lo_purgeCredentials = Some True\<rparr>
           (initial\<lparr>credentials := [''main'' \<mapsto> ''blob'']\<rparr>)) ''main'' = Some ''blob''
   \<and> calls
        (logout_session_app None None 7
           \<lparr>lo_sessionId = Some ''main'', lo_purgeCredentials = Some False\<rparr>
           (initial\<lparr>credentials := [''main'' \<mapsto> ''blob'']\<rparr>)) = [ClearSession ''main'']
   \<and> credentials
        (logout_session_app None None 7
           \<lparr>lo_sessionId = Some ''main'', lo_purgeCredentials = Some False\<rparr>
           (initial\<lparr>credentials := [''main'' \<mapsto> ''blob'']\<rparr>)) ''main'' = None"
    by (simp add: logout_session_app_def logout_server_def Let_def updateStatus_def
        clearSession_def default_app_def default_server_def truthy_def str_def initial_def
        session_event_def emit_def)
  have b: "SESSIONS
        (logout_server None 7
           \<lparr>lo_sessionId = Some ''__proto__'', lo_purgeCredentials = None\<rparr>
           (snd (startBaileysSession Server_js None ''__proto__'' None initial))) ''__proto__''
       = Some \<lparr>sock = 0, lastQr = None, createdAt = 0\<rparr>"
    by (simp add: start_proto logout_server_def Let_def default_server_def truthy_def str_def
        registry_delete_def)
  show ?thesis using a b by blast
qed

end
